theory Spec2Isabelle
  imports Complex_Main
begin

section \<open>Strings as the validators use them\<close>

text \<open>
  A Python \<open>str\<close> is modelled as a \<open>string\<close> whose characters are the code points below 256.
  Glyphs above that range occur only inside the literal reason texts; there they are written
  as their UTF-8 bytes. Floats are modelled as reals.
\<close>

definition chr_code :: "char \<Rightarrow> nat" where
  "chr_code c = of_char c"

definition is_ascii_upper :: "char \<Rightarrow> bool" where
  "is_ascii_upper c = (65 \<le> chr_code c \<and> chr_code c \<le> 90)"

definition is_ascii_lower :: "char \<Rightarrow> bool" where
  "is_ascii_lower c = (97 \<le> chr_code c \<and> chr_code c \<le> 122)"

definition is_ascii_digit :: "char \<Rightarrow> bool" where
  "is_ascii_digit c = (48 \<le> chr_code c \<and> chr_code c \<le> 57)"

definition is_ascii_alpha :: "char \<Rightarrow> bool" where
  "is_ascii_alpha c = (is_ascii_upper c \<or> is_ascii_lower c)"

text \<open>\<open>str.lower\<close>, on code points below 256: A-Z, and the Latin-1 capitals except the
  multiplication sign, move up by 32.\<close>

definition lower_char :: "char \<Rightarrow> char" where
  "lower_char c =
     (if is_ascii_upper c \<or> (192 \<le> chr_code c \<and> chr_code c \<le> 222 \<and> chr_code c \<noteq> 215)
      then char_of (chr_code c + 32) else c)"

definition lower :: "string \<Rightarrow> string" where
  "lower s = map lower_char s"

definition startswith :: "string \<Rightarrow> string \<Rightarrow> bool" where
  "startswith s p = (take (length p) s = p)"

definition endswith :: "string \<Rightarrow> string \<Rightarrow> bool" where
  "endswith s p = (length p \<le> length s \<and> drop (length s - length p) s = p)"

text \<open>\<open>sub in s\<close>.\<close>

fun contains :: "string \<Rightarrow> string \<Rightarrow> bool" where
  "contains sub [] = (sub = [])"
| "contains sub (c # cs) = (startswith (c # cs) sub \<or> contains sub cs)"

text \<open>\<open>s.replace(old, '')\<close>: every occurrence of \<open>old\<close>, found from the left without overlap,
  is removed; an empty \<open>old\<close> leaves \<open>s\<close> as it is.\<close>

function str_remove :: "string \<Rightarrow> string \<Rightarrow> string" where
  "str_remove old [] = []"
| "str_remove old (c # cs) =
     (if old \<noteq> [] \<and> startswith (c # cs) old
      then str_remove old (drop (length old) (c # cs))
      else c # str_remove old cs)"
  by pat_completeness auto
termination
  by (relation "measure (\<lambda>(old, s). length s)") auto

text \<open>\<open>s.split(c)[-1]\<close> and \<open>s.split(c)[0]\<close>.\<close>

definition after_last :: "char \<Rightarrow> string \<Rightarrow> string" where
  "after_last c s = rev (takeWhile (\<lambda>x. x \<noteq> c) (rev s))"

definition before_first :: "char \<Rightarrow> string \<Rightarrow> string" where
  "before_first c s = takeWhile (\<lambda>x. x \<noteq> c) s"

definition rstrip :: "string \<Rightarrow> string \<Rightarrow> string" where
  "rstrip chars s = rev (dropWhile (\<lambda>x. x \<in> set chars) (rev s))"

text \<open>\<open>', '.join(xs)\<close>.\<close>

fun join :: "string \<Rightarrow> string list \<Rightarrow> string" where
  "join sep [] = []"
| "join sep [x] = x"
| "join sep (x # y # ys) = x @ sep @ join sep (y # ys)"

text \<open>\<open>str(n)\<close> for an integer.\<close>

function str_nat :: "nat \<Rightarrow> string" where
  "str_nat n = (if n < 10 then [char_of (48 + n)] else str_nat (n div 10) @ [char_of (48 + n mod 10)])"
  by pat_completeness auto
termination
  by (relation "measure id") auto

definition str_int :: "int \<Rightarrow> string" where
  "str_int i = (if i < 0 then CHR ''-'' # str_nat (nat (- i)) else str_nat (nat i))"

subsection \<open>Glyphs of the reason texts\<close>

definition g_check :: string where "g_check = [CHR 0xE2, CHR 0x9C, CHR 0x93]"
definition g_check_button :: string where "g_check_button = [CHR 0xE2, CHR 0x9C, CHR 0x85]"
definition g_warning :: string where
  "g_warning = [CHR 0xE2, CHR 0x9A, CHR 0xA0, CHR 0xEF, CHR 0xB8, CHR 0x8F]"
definition g_no_entry :: string where "g_no_entry = [CHR 0xE2, CHR 0x9B, CHR 0x94]"
definition g_siren :: string where "g_siren = [CHR 0xF0, CHR 0x9F, CHR 0x9A, CHR 0xA8]"
definition g_magnifier :: string where "g_magnifier = [CHR 0xF0, CHR 0x9F, CHR 0x94, CHR 0x8D]"
definition g_cross :: string where "g_cross = [CHR 0xE2, CHR 0x9D, CHR 0x8C]"

section \<open>Regular expressions of the validators\<close>

text \<open>
  The patterns of the source are sequences of: a literal character, a character class with a
  greedy repetition \<open>{lo,hi}\<close> (\<open>.*\<close> is the class of all characters but newline, repeated
  from 0 times on, \<open>hi = None\<close> being no upper bound), the anchor \<open>$\<close>, a negative
  lookahead over literal alternatives, and the word boundary \<open>\b\<close>. \<open>rx_match\<close> is the
  backtracking matcher of \<open>re.match\<close>: it returns the length of the first match found in
  the matcher's priority order, or \<open>None\<close>. The second argument is the character before the
  position (for \<open>\b\<close>).
\<close>

datatype atom =
    Chr char
  | Cls "char \<Rightarrow> bool" nat "nat option"
  | Eos
  | NotAhead "string list"
  | WordB

definition lit :: "string \<Rightarrow> atom list" where
  "lit s = map Chr s"

definition newline :: char where
  "newline = CHR 0x0A"

definition dot_star :: atom where
  "dot_star = Cls (\<lambda>c. c \<noteq> newline) 0 None"

text \<open>\<open>\w\<close> on code points below 256: letters, digits and numeric characters, and the
  underscore.\<close>

definition is_word :: "char \<Rightarrow> bool" where
  "is_word c =
     (let n = chr_code c in
      is_ascii_alpha c \<or> is_ascii_digit c \<or> n = 95 \<or> n = 170 \<or> n = 178 \<or> n = 179 \<or> n = 181 \<or>
      n = 185 \<or> n = 186 \<or> n = 188 \<or> n = 189 \<or> n = 190 \<or>
      (192 \<le> n \<and> n \<le> 255 \<and> n \<noteq> 215 \<and> n \<noteq> 247))"

text \<open>\<open>\s\<close> on code points below 256.\<close>

definition is_space :: "char \<Rightarrow> bool" where
  "is_space c =
     (let n = chr_code c in (9 \<le> n \<and> n \<le> 13) \<or> (28 \<le> n \<and> n \<le> 32) \<or> n = 133 \<or> n = 160)"

definition word_opt :: "char option \<Rightarrow> bool" where
  "word_opt p = (case p of None \<Rightarrow> False | Some c \<Rightarrow> is_word c)"

fun rx_match :: "atom list \<Rightarrow> char option \<Rightarrow> string \<Rightarrow> nat option" where
  "rx_match [] prev s = Some 0"
| "rx_match (Chr c # r) prev [] = None"
| "rx_match (Chr c # r) prev (x # xs) =
     (if x = c then map_option Suc (rx_match r (Some x) xs) else None)"
| "rx_match (Cls P lo hi # r) prev [] = (if lo = 0 then rx_match r prev [] else None)"
| "rx_match (Cls P lo hi # r) prev (x # xs) =
     (case (if P x \<and> hi \<noteq> Some 0
            then map_option Suc
                   (rx_match (Cls P (lo - 1) (map_option (\<lambda>h. h - 1) hi) # r) (Some x) xs)
            else None) of
        Some n \<Rightarrow> Some n
      | None \<Rightarrow> if lo = 0 then rx_match r prev (x # xs) else None)"
| "rx_match (Eos # r) prev s = (if s = [] \<or> s = [newline] then rx_match r prev s else None)"
| "rx_match (NotAhead alts # r) prev s =
     (if list_ex (startswith s) alts then None else rx_match r prev s)"
| "rx_match (WordB # r) prev s =
     (if word_opt prev \<noteq> word_opt (case s of [] \<Rightarrow> None | x # _ \<Rightarrow> Some x)
      then rx_match r prev s else None)"

text \<open>\<open>bool(re.match(pattern, s))\<close>.\<close>

definition re_match :: "atom list \<Rightarrow> string \<Rightarrow> bool" where
  "re_match rx s = (rx_match rx None s \<noteq> None)"

section \<open>The world outside the program\<close>

text \<open>
  The library calls, model artifacts and network replies the validators depend on are the
  fields of a \<open>world\<close>; every theorem below that takes a world holds for all of them.
\<close>

text \<open>What loading the Stage 1 artifacts, extracting the 38 features and running the two
  models yields for a URL: no classifier artifact; an exception somewhere in that pipeline
  (its text); or the classifier's class-0 probability together with the isolation forest's raw
  decision value (\<open>None\<close> when the forest or its scaler is missing or fails).\<close>

datatype ml_outcome =
    ModelsUnavailable
  | PipelineError string
  | Scored real "real option"

text \<open>What \<open>requests.get\<close> yields: the response text and the final URL after redirects; a
  \<open>requests\<close> exception (timeout included); or any other exception (its text).\<close>

datatype http_outcome =
    HttpResponse string string
  | HttpRequestException
  | HttpOtherException string

text \<open>What the Stage 2 model yields for the scanned page: no model or scaler; a failed
  prediction; or the class-1 probability.\<close>

datatype ml2_outcome =
    NoDynamicModel
  | DynamicPredictionFailed
  | DynamicProb real

record world =
  url_netloc :: "string \<Rightarrow> string + string"
  unquote :: "string \<Rightarrow> string"
  stage1_ml :: "string \<Rightarrow> ml_outcome"
  round2 :: "real \<Rightarrow> real"
  fmt2 :: "real \<Rightarrow> string"
  http_get :: "string \<Rightarrow> http_outcome"
  stage2_ml :: "string \<Rightarrow> string \<Rightarrow> (string \<times> bool) list \<Rightarrow> ml2_outcome"
  scanner_import :: "string option"
  decode_qr :: "string \<Rightarrow> string option"

text \<open>
  \<open>scanner_import\<close> is the exception (its text) of importing the scanner module, which loads
  \<open>requests\<close> at module level, or \<open>None\<close> when the module loads. The other modules on the
  paths below import only the standard library at module level.
\<close>

text \<open>
  \<open>url_netloc w url\<close> stands for \<open>urlparse(url).netloc\<close>, or the text of the \<open>ValueError\<close> it
  raises. \<open>urlparse_netloc\<close> below is the standard library's rule (CPython 3.11, without the
  validation of a bracketed IPv6 host): leading control characters and spaces are dropped,
  tabs and line breaks removed, a scheme is split off, and after \<open>//\<close> the netloc runs up to
  the first of \<open>/ ? #\<close>.
\<close>

definition scheme_char :: "char \<Rightarrow> bool" where
  "scheme_char c = (is_ascii_alpha c \<or> is_ascii_digit c \<or> c \<in> set ''+-.'')"

definition strip_scheme :: "string \<Rightarrow> string" where
  "strip_scheme url =
     (let pre = takeWhile (\<lambda>c. c \<noteq> CHR '':'') url in
      if length pre < length url \<and> pre \<noteq> [] \<and> is_ascii_alpha (hd pre) \<and> list_all scheme_char pre
      then drop (length pre + 1) url else url)"

definition urlparse_netloc :: "string \<Rightarrow> string + string" where
  "urlparse_netloc url =
     (let u1 = dropWhile (\<lambda>c. chr_code c \<le> 32) url;
          u2 = filter (\<lambda>c. chr_code c \<noteq> 9 \<and> chr_code c \<noteq> 10 \<and> chr_code c \<noteq> 13) u1;
          u3 = strip_scheme u2
      in if take 2 u3 = ''//''
         then (let netloc = takeWhile (\<lambda>c. c \<notin> set ''/?#'') (drop 2 u3) in
               if (CHR ''['' \<in> set netloc \<and> CHR '']'' \<notin> set netloc) \<or>
                  (CHR '']'' \<in> set netloc \<and> CHR ''['' \<notin> set netloc)
               then Inl ''Invalid IPv6 URL'' else Inr netloc)
         else Inr [])"

section \<open>Link validator (link\_validation/validator.py)\<close>

definition bs :: string where
  "bs = [CHR 0x5C]"

text \<open>\<open>PHISHING_PATTERNS\<close>: each pattern's text with its reading as atoms.\<close>

definition PHISHING_PATTERNS :: "(string \<times> atom list) list" where
  "PHISHING_PATTERNS =
   [(''.*-verify.*'' @ bs @ ''.com$'', dot_star # lit ''-verify'' @ dot_star # lit ''.com'' @ [Eos]),
    (''.*-kyc.*'' @ bs @ ''.com$'', dot_star # lit ''-kyc'' @ dot_star # lit ''.com'' @ [Eos]),
    (''.*-update.*'' @ bs @ ''.com$'', dot_star # lit ''-update'' @ dot_star # lit ''.com'' @ [Eos]),
    (''.*-secure.*'' @ bs @ ''.com$'', dot_star # lit ''-secure'' @ dot_star # lit ''.com'' @ [Eos]),
    (''.*-block.*'' @ bs @ ''.com$'', dot_star # lit ''-block'' @ dot_star # lit ''.com'' @ [Eos]),
    (''.*-suspended.*'' @ bs @ ''.com$'',
       dot_star # lit ''-suspended'' @ dot_star # lit ''.com'' @ [Eos]),
    (''.*-reactivate.*'' @ bs @ ''.com$'',
       dot_star # lit ''-reactivate'' @ dot_star # lit ''.com'' @ [Eos]),
    (''.*-confirm.*'' @ bs @ ''.com$'', dot_star # lit ''-confirm'' @ dot_star # lit ''.com'' @ [Eos]),
    (''upi-.*'' @ bs @ ''.com$'', lit ''upi-'' @ dot_star # lit ''.com'' @ [Eos]),
    (''.*-upi'' @ bs @ ''.com$'', dot_star # lit ''-upi.com'' @ [Eos]),
    (''sbi-.*'' @ bs @ ''.com$'', lit ''sbi-'' @ dot_star # lit ''.com'' @ [Eos]),
    (''hdfc-.*'' @ bs @ ''.com$'', lit ''hdfc-'' @ dot_star # lit ''.com'' @ [Eos]),
    (''icici-.*'' @ bs @ ''.com$'', lit ''icici-'' @ dot_star # lit ''.com'' @ [Eos]),
    (''paytm-.*'' @ bs @ ''.com$'', lit ''paytm-'' @ dot_star # lit ''.com'' @ [Eos]),
    (''.*-bank.*'' @ bs @ ''.com$'', dot_star # lit ''-bank'' @ dot_star # lit ''.com'' @ [Eos]),
    (''.*bank-.*'' @ bs @ ''.com$'', dot_star # lit ''bank-'' @ dot_star # lit ''.com'' @ [Eos]),
    (''.*netbanking.*'' @ bs @ ''.(?!hdfcbank'' @ bs @ ''.com|icicibank'' @ bs @ ''.com)'',
       dot_star # lit ''netbanking'' @ dot_star # Chr CHR ''.'' #
       [NotAhead [''hdfcbank.com'', ''icicibank.com'']])]"

definition DOMAIN_KEYWORDS :: "string list" where
  "DOMAIN_KEYWORDS =
   [''verify'', ''kyc'', ''update'', ''secure'', ''block'', ''suspended'',
    ''reactivate'', ''confirm'', ''urgent'', ''expire'', ''bank-login'',
    ''net-banking'', ''account-verify'', ''customer-care'']"

text \<open>The dictionary \<open>check_domain_blacklist\<close> returns: not blacklisted, or blacklisted by a
  pattern (its text) or by a keyword.\<close>

datatype blacklist_result =
    NotBlacklisted
  | PatternHit string
  | KeywordHit string

definition is_blacklisted :: "blacklist_result \<Rightarrow> bool" where
  "is_blacklisted b = (b \<noteq> NotBlacklisted)"

definition blacklist_reason :: "blacklist_result \<Rightarrow> string" where
  "blacklist_reason b =
     (case b of
        NotBlacklisted \<Rightarrow> []
      | PatternHit p \<Rightarrow> ''Phishing pattern detected: '' @ p
      | KeywordHit k \<Rightarrow> ''Suspicious keyword in domain: '' @ k)"

text \<open>\<open>check_domain_blacklist\<close>; \<open>Inl\<close> is the exception of \<open>urlparse\<close>, which the function does
  not catch.\<close>

definition check_domain_blacklist :: "world \<Rightarrow> string \<Rightarrow> string + blacklist_result" where
  "check_domain_blacklist w url =
     (case url_netloc w url of
        Inl e \<Rightarrow> Inl e
      | Inr n \<Rightarrow>
          (let domain = lower n in
           case find (\<lambda>(txt, rx). re_match rx domain) PHISHING_PATTERNS of
             Some (txt, rx) \<Rightarrow> Inr (PatternHit txt)
           | None \<Rightarrow>
               (case find (\<lambda>keyword. contains keyword domain \<and>
                            domain \<notin> set [''hdfcbank.com'', ''icicibank.com'', ''sbi.co.in'', ''onlinesbi.sbi''])
                          DOMAIN_KEYWORDS of
                  Some keyword \<Rightarrow> Inr (KeywordHit keyword)
                | None \<Rightarrow> Inr NotBlacklisted)))"

definition TRUSTED_DOMAINS :: "string list" where
  "TRUSTED_DOMAINS =
   [''google.com'', ''gmail.com'', ''youtube.com'', ''facebook.com'', ''meta.com'',
    ''amazon.com'', ''amazonpay.in'', ''apple.com'', ''microsoft.com'', ''netflix.com'',
    ''twitter.com'', ''x.com'', ''instagram.com'', ''linkedin.com'', ''whatsapp.com'',
    ''wikipedia.org'', ''reddit.com'', ''github.com'', ''stackoverflow.com'',
    ''hdfcbank.com'', ''icicibank.com'', ''sbi.co.in'', ''onlinesbi.sbi'',
    ''axisbank.com'', ''kotakbank.com'', ''yesbank.in'', ''pnbindia.in'',
    ''bankofbaroda.in'', ''canarabank.com'', ''unionbankofindia.co.in'',
    ''paytm.com'', ''phonepe.com'', ''googlepay.com'',
    ''bhimupi.org.in'', ''npci.org.in'', ''upi.com'',
    ''gov.in'', ''nic.in'', ''uidai.gov.in'', ''epfindia.gov.in'']"

text \<open>\<open>is_trusted_domain(url)\<close> of the link validator: any exception gives \<open>False\<close>.\<close>

definition is_trusted_domain :: "world \<Rightarrow> string \<Rightarrow> bool" where
  "is_trusted_domain w url =
     (case url_netloc w url of
        Inl e \<Rightarrow> False
      | Inr n \<Rightarrow>
          (let domain = str_remove ''www.'' (lower n) in
           domain \<in> set TRUSTED_DOMAINS \<or>
           list_ex (\<lambda>trusted. endswith domain (''.'' @ trusted) \<or> domain = trusted) TRUSTED_DOMAINS))"

record url_result =
  u_verdict :: string
  u_score :: real
  u_xgb_prob :: "real option"
  u_if_score :: "real option"
  u_reasons :: "string list"
  u_url :: string
  u_blacklist_match :: "blacklist_result option"

text \<open>The result of the outer \<open>except\<close> of \<open>validate_url\<close>.\<close>

definition validation_error :: "string \<Rightarrow> string \<Rightarrow> url_result" where
  "validation_error url e =
     \<lparr>u_verdict = ''WARN'', u_score = 0.5, u_xgb_prob = None, u_if_score = None,
      u_reasons = [g_warning @ '' Validation error: '' @ e], u_url = url,
      u_blacklist_match = None\<rparr>"

text \<open>The scoring branch of \<open>validate_url\<close>, from the classifier probability and the raw
  isolation-forest value on. (\<open>math.exp\<close> overflows on a raw value above about 354, and the
  source then keeps 0.5; over the reals it does not.)\<close>

definition score_url :: "world \<Rightarrow> string \<Rightarrow> real \<Rightarrow> real option \<Rightarrow> url_result" where
  "score_url w url xgb_prob if_raw =
     (let if_score = (case if_raw of None \<Rightarrow> 0.5 | Some r \<Rightarrow> 1 / (1 + exp (r * 2)));
          risk_score = xgb_prob * 0.8 + if_score * 0.2;
          reasons =
            (if xgb_prob \<ge> 0.7 then [g_no_entry @ '' High fraud probability: '' @ fmt2 w xgb_prob]
             else if xgb_prob \<ge> 0.5
               then [g_warning @ '' Suspicious patterns detected: '' @ fmt2 w xgb_prob]
             else if xgb_prob \<le> 0.3 then [g_check @ '' Low fraud probability: '' @ fmt2 w xgb_prob]
             else []);
          verdict = (if risk_score \<ge> 0.7 then ''BLOCK'' else if risk_score \<ge> 0.4 then ''WARN'' else ''OK'');
          reasons' =
            (if reasons \<noteq> [] then reasons
             else if risk_score \<ge> 0.7 then [g_no_entry @ '' ML analysis indicates high fraud risk'']
             else if risk_score \<ge> 0.4
               then [g_warning @ '' Suspicious - requires additional verification'']
             else [g_check @ '' URL appears legitimate (risk: '' @ fmt2 w risk_score @ '')''])
      in \<lparr>u_verdict = verdict, u_score = round2 w risk_score,
          u_xgb_prob = Some (round2 w xgb_prob), u_if_score = Some (round2 w if_score),
          u_reasons = reasons', u_url = url, u_blacklist_match = None\<rparr>)"

definition validate_url :: "world \<Rightarrow> string \<Rightarrow> url_result" where
  "validate_url w url =
     (if is_trusted_domain w url
      then \<lparr>u_verdict = ''OK'', u_score = 0.0, u_xgb_prob = Some 0.0, u_if_score = Some 0.0,
            u_reasons = [g_check_button @ '' Trusted domain (whitelisted)''], u_url = url,
            u_blacklist_match = None\<rparr>
      else
        (case check_domain_blacklist w url of
           Inl e \<Rightarrow> validation_error url e
         | Inr bl \<Rightarrow>
             if is_blacklisted bl
             then \<lparr>u_verdict = ''BLOCK'', u_score = 1.0, u_xgb_prob = Some 1.0, u_if_score = Some 1.0,
                   u_reasons = [g_no_entry @ '' BLOCKED: '' @ blacklist_reason bl,
                                g_siren @ '' Domain matches known phishing pattern''],
                   u_url = url, u_blacklist_match = Some bl\<rparr>
             else
               (case stage1_ml w url of
                  ModelsUnavailable \<Rightarrow>
                    \<lparr>u_verdict = ''WARN'', u_score = 0.5, u_xgb_prob = None, u_if_score = None,
                     u_reasons = [g_warning @ '' ML models not available - manual review recommended''],
                     u_url = url, u_blacklist_match = None\<rparr>
                | PipelineError e \<Rightarrow> validation_error url e
                | Scored xgb_prob if_raw \<Rightarrow> score_url w url xgb_prob if_raw)))"

section \<open>Stage 2 scanner (stage2\_dynamic/headless\_browser.py)\<close>

definition S2_TRUSTED_DOMAINS :: "string list" where
  "S2_TRUSTED_DOMAINS =
   [''google.com'', ''gmail.com'', ''youtube.com'', ''facebook.com'', ''meta.com'',
    ''amazon.com'', ''amazonpay.in'', ''apple.com'', ''microsoft.com'', ''netflix.com'',
    ''twitter.com'', ''x.com'', ''instagram.com'', ''linkedin.com'', ''whatsapp.com'',
    ''wikipedia.org'', ''reddit.com'', ''github.com'', ''stackoverflow.com'',
    ''hdfcbank.com'', ''icicibank.com'', ''sbi.co.in'', ''onlinesbi.sbi'',
    ''axisbank.com'', ''kotakbank.com'', ''yesbank.in'', ''pnbindia.in'',
    ''bankofbaroda.in'', ''canarabank.com'', ''unionbankofindia.co.in'',
    ''paytm.com'', ''phonepe.com'', ''googlepay.com'',
    ''bhimupi.org.in'', ''npci.org.in'', ''upi.com'',
    ''gov.in'', ''nic.in'', ''uidai.gov.in'', ''epfindia.gov.in'']"

definition BANK_KEYWORDS :: "string list" where
  "BANK_KEYWORDS = [''bank'', ''banking'', ''netbanking'']"

definition SUSPICIOUS_TLDS :: "string list" where
  "SUSPICIOUS_TLDS =
   [''.shop'', ''.xyz'', ''.top'', ''.online'', ''.icu'', ''.live'', ''.buzz'', ''.click'',
    ''.gq'', ''.ml'', ''.tk'', ''.ga'', ''.cf'']"

text \<open>\<open>is_trusted_domain(domain)\<close> of the scanner: it strips one leading \<open>www.\<close>.\<close>

definition s2_is_trusted_domain :: "string \<Rightarrow> bool" where
  "s2_is_trusted_domain domain0 =
     (let d = lower domain0;
          domain = (if startswith d ''www.'' then drop 4 d else d)
      in domain \<in> set S2_TRUSTED_DOMAINS \<or>
         list_ex (\<lambda>trusted. endswith domain (''.'' @ trusted) \<or> domain = trusted) S2_TRUSTED_DOMAINS)"

definition is_likely_bank_domain :: "string \<Rightarrow> bool" where
  "is_likely_bank_domain domain0 =
     (let domain = lower domain0;
          has_bank_keyword = list_ex (\<lambda>kw. contains kw domain) BANK_KEYWORDS;
          has_legit_tld = list_ex (endswith domain) [''.in'', ''.co.in'', ''.org.in'', ''.com''];
          has_suspicious_tld = list_ex (endswith domain) SUSPICIOUS_TLDS
      in has_bank_keyword \<and> has_legit_tld \<and> \<not> has_suspicious_tld)"

record flags =
  redirects_to_different_domain :: bool
  has_password_field :: bool
  has_otp_field :: bool
  mimics_banking_ui :: bool
  requests_sensitive_info :: bool
  suspicious_javascript :: bool
  suspicious_domain :: bool
  connection_failed :: bool
  trusted_domain :: bool

definition initial_flags :: flags where
  "initial_flags =
     \<lparr>redirects_to_different_domain = False, has_password_field = False, has_otp_field = False,
      mimics_banking_ui = False, requests_sensitive_info = False, suspicious_javascript = False,
      suspicious_domain = False, connection_failed = False, trusted_domain = False\<rparr>"

text \<open>The \<open>behavioral_flags\<close> dictionary, in its insertion order.\<close>

definition flags_dict :: "flags \<Rightarrow> (string \<times> bool) list" where
  "flags_dict f =
     [(''redirects_to_different_domain'', redirects_to_different_domain f),
      (''has_password_field'', has_password_field f),
      (''has_otp_field'', has_otp_field f),
      (''mimics_banking_ui'', mimics_banking_ui f),
      (''requests_sensitive_info'', requests_sensitive_info f),
      (''suspicious_javascript'', suspicious_javascript f),
      (''suspicious_domain'', suspicious_domain f),
      (''connection_failed'', connection_failed f),
      (''trusted_domain'', trusted_domain f)]"

text \<open>\<open>d.get(key)\<close> read as a truth value.\<close>

definition flag :: "(string \<times> bool) list \<Rightarrow> string \<Rightarrow> bool" where
  "flag d key = (case map_of d key of Some v \<Rightarrow> v | None \<Rightarrow> False)"

text \<open>The dictionary \<open>scan_url_headless\<close> returns; a key that a branch does not set is
  \<open>None\<close>.\<close>

record scan_result =
  sr_url :: string
  sr_success :: "bool option"
  sr_error :: "string option"
  sr_risk_score :: "real option"
  sr_score :: "real option"
  sr_verdict :: string
  sr_behavioral_flags :: "(string \<times> bool) list option"
  sr_features :: "(string \<times> real) list option"
  sr_ml_score :: "real option"
  sr_reason :: "string option"

definition scan_exception :: "string \<Rightarrow> string \<Rightarrow> scan_result" where
  "scan_exception url e =
     \<lparr>sr_url = url, sr_success = Some False, sr_error = Some e, sr_risk_score = None,
      sr_score = Some 0.5, sr_verdict = ''WARN'', sr_behavioral_flags = None,
      sr_features = None, sr_ml_score = None, sr_reason = None\<rparr>"

definition BRANDS :: "(string \<times> string) list" where
  "BRANDS =
   [(''paytm'', ''paytm.com''), (''phonepe'', ''phonepe.com''), (''gpay'', ''pay.google.com''),
    (''googlepay'', ''pay.google.com''), (''sbi'', ''onlinesbi.sbi''), (''hdfc'', ''hdfcbank.com''),
    (''icici'', ''icicibank.com''), (''axis'', ''axisbank.com''), (''kotak'', ''kotak.com'')]"

text \<open>The rule score and the domain flag before the page is fetched.\<close>

definition domain_rules :: "string \<Rightarrow> flags \<times> real" where
  "domain_rules domain =
     (let bad_tld = list_ex (endswith domain) SUSPICIOUS_TLDS;
          r1 = (if bad_tld then 0.35 else 0);
          domain_lower = lower domain;
          keyword_count =
            length (filter (\<lambda>kw. contains kw domain_lower)
                      [''cashback'', ''reward'', ''bonus'', ''free-money'', ''instant-win'', ''verify'']);
          r2 = (if keyword_count \<ge> 2 \<or> (keyword_count \<ge> 1 \<and> bad_tld) then r1 + 0.25 else r1);
          brand_hit =
            list_ex (\<lambda>(brand, official). contains brand domain_lower \<and> \<not> endswith domain official \<and>
                       \<not> s2_is_trusted_domain domain) BRANDS
      in (initial_flags\<lparr>suspicious_domain := bad_tld \<or> brand_hit\<rparr>,
          if brand_hit then r2 + 0.40 else r2))"

text \<open>The inspection of a fetched page, after the redirect check.\<close>

definition inspect_content :: "string \<Rightarrow> flags \<times> real \<Rightarrow> flags \<times> real" where
  "inspect_content content fr =
     (let content_lower = lower content;
          f = fst fr; r = snd fr;
          has_login_form = (contains ''type=\"password\"'' content_lower \<or>
                            contains ''type=password'' content_lower);
          has_otp = list_ex (\<lambda>k. contains k content_lower) [''otp'', ''cvv'', ''pin''];
          r1 = (if has_login_form \<and> suspicious_domain f then r + 0.15 else r);
          r2 = (if has_otp \<and> suspicious_domain f then r1 + 0.20 else r1);
          has_banking_ui =
            list_ex (\<lambda>kw. contains kw content_lower)
              [''netbanking'', ''account balance'', ''fund transfer'', ''transaction''];
          r3 = (if has_banking_ui \<and> suspicious_domain f then r2 + 0.25 else r2);
          has_sensitive =
            list_ex (\<lambda>field. contains field content_lower)
              [''aadhaar'', ''pan card'', ''debit card'', ''credit card'', ''card number'', ''expiry''];
          r4 = (if has_sensitive \<and> suspicious_domain f then r3 + 0.30 else r3)
      in (f\<lparr>has_password_field := has_login_form, has_otp_field := has_otp,
            mimics_banking_ui := has_banking_ui, requests_sensitive_info := has_sensitive\<rparr>, r4))"

text \<open>The end of the scan: the model blend, the verdict and the result.\<close>

definition finish_scan :: "world \<Rightarrow> string \<Rightarrow> bool \<Rightarrow> string \<Rightarrow> flags \<times> real \<Rightarrow> scan_result" where
  "finish_scan w url looks_like_bank content fr =
     (let f = fst fr; rule_score = snd fr;
          ml = (case stage2_ml w url content (flags_dict f) of
                  DynamicProb p \<Rightarrow> Some p
                | _ \<Rightarrow> None);
          risk_score =
            (case ml of
               None \<Rightarrow> rule_score
             | Some ml_score \<Rightarrow>
                 if ml_score < 0.3 \<and> rule_score < 0.6 then 0.4 * ml_score + 0.6 * rule_score
                 else 0.6 * ml_score + 0.4 * rule_score);
          verdict =
            (if looks_like_bank \<and> connection_failed f
             then (if risk_score \<ge> 0.6 then ''BLOCK''
                   else if risk_score \<ge> 0.4 then ''WARN'' else ''WARN'')
             else (if risk_score \<ge> 0.75 then ''BLOCK''
                   else if risk_score \<ge> 0.45 then ''WARN'' else ''OK''))
      in \<lparr>sr_url = url, sr_success = Some True, sr_error = None, sr_risk_score = None,
          sr_score = Some (round2 w (min risk_score 1.0)), sr_verdict = verdict,
          sr_behavioral_flags = Some (flags_dict f), sr_features = None,
          sr_ml_score = map_option (round2 w) ml, sr_reason = None\<rparr>)"

definition scan_url_headless :: "world \<Rightarrow> string \<Rightarrow> scan_result" where
  "scan_url_headless w url =
     (case url_netloc w url of
        Inl e \<Rightarrow> scan_exception url e
      | Inr n \<Rightarrow>
          (let domain = str_remove ''www.'' (lower n) in
           if s2_is_trusted_domain domain
           then \<lparr>sr_url = url, sr_success = None, sr_error = None, sr_risk_score = Some 0.0,
                 sr_score = None, sr_verdict = ''OK'',
                 sr_behavioral_flags = Some [(''trusted_domain'', True)],
                 sr_features = Some [], sr_ml_score = None,
                 sr_reason = Some ''Trusted domain - bypassed scanning''\<rparr>
           else
             (let looks_like_bank = is_likely_bank_domain domain;
                  fr = domain_rules domain
              in case http_get w url of
                   HttpOtherException e \<Rightarrow> scan_exception url e
                 | HttpRequestException \<Rightarrow>
                     finish_scan w url looks_like_bank []
                       ((fst fr)\<lparr>connection_failed := True\<rparr>,
                        if looks_like_bank \<and> \<not> s2_is_trusted_domain domain then snd fr + 0.50
                        else if suspicious_domain (fst fr) then snd fr + 0.40
                        else snd fr + 0.25)
                 | HttpResponse content final_url \<Rightarrow>
                     (case url_netloc w final_url of
                        Inl e \<Rightarrow> scan_exception url e
                      | Inr rn \<Rightarrow>
                          (let redirect_domain = lower rn;
                               redirect_check =
                                 (if startswith redirect_domain ''www.''
                                  then drop 4 redirect_domain else redirect_domain)
                           in if redirect_check \<noteq> domain \<and> s2_is_trusted_domain redirect_check
                              then \<lparr>sr_url = url, sr_success = Some True, sr_error = None,
                                    sr_risk_score = None, sr_score = Some 0.1, sr_verdict = ''OK'',
                                    sr_behavioral_flags = Some [(''redirects_to_trusted_domain'', True)],
                                    sr_features = None, sr_ml_score = None,
                                    sr_reason =
                                      Some (''Redirects to trusted domain: '' @ redirect_domain)\<rparr>
                              else
                                finish_scan w url looks_like_bank content
                                  (inspect_content content
                                     (if redirect_check \<noteq> domain
                                      then ((fst fr)\<lparr>redirects_to_different_domain := True\<rparr>,
                                            snd fr + 0.15)
                                      else fr)))))))"

text \<open>A scan result that does not come from the scanner's trusted-domain return: it has no
  \<open>risk_score\<close> key, and its flags do not say \<open>trusted_domain\<close>.\<close>

definition untrusted_scan :: "scan_result \<Rightarrow> bool" where
  "untrusted_scan r =
     (sr_risk_score r = None \<and>
      \<not> flag (case sr_behavioral_flags r of Some d \<Rightarrow> d | None \<Rightarrow> []) ''trusted_domain'')"

section \<open>Stage 2 validator (stage2\_dynamic/stage2\_validator.py)\<close>

record stage2_result =
  s2_success :: bool
  s2_verdict :: string
  s2_score :: real
  s2_features :: "(string \<times> real) list option"
  s2_behavioral :: "(string \<times> bool) list option"
  s2_reason :: string
  s2_reasons :: "string list option"

text \<open>The result of the \<open>except\<close> of \<open>validate_url_stage2\<close>.\<close>

definition stage2_error :: "string \<Rightarrow> stage2_result" where
  "stage2_error e =
     \<lparr>s2_success = False, s2_verdict = ''WARN'', s2_score = 0.5, s2_features = None,
      s2_behavioral = None, s2_reason = ''Stage 2 error: '' @ e, s2_reasons = None\<rparr>"

text \<open>\<open>validate_url_stage2\<close>. A failing import of the scanner goes to the \<open>except\<close>. A scan
  result is never empty, so the first early return of the source is not taken;
  \<open>result.get("error")\<close> is read as a truth value, so an empty exception text does not take the
  error return.\<close>

definition validate_url_stage2 :: "world \<Rightarrow> string \<Rightarrow> stage2_result" where
  "validate_url_stage2 w url =
     (case scanner_import w of
        Some e \<Rightarrow> stage2_error e
      | None \<Rightarrow>
          (let result = scan_url_headless w url;
               score = (case sr_risk_score result of Some r \<Rightarrow> r | None \<Rightarrow> 0.5);
               bflags = (case sr_behavioral_flags result of Some d \<Rightarrow> d | None \<Rightarrow> []);
               features = (case sr_features result of Some d \<Rightarrow> d | None \<Rightarrow> [])
           in if flag bflags ''trusted_domain''
              then \<lparr>s2_success = True, s2_verdict = ''OK'', s2_score = 0.0,
                    s2_features = Some features, s2_behavioral = Some bflags,
                    s2_reason = ''Trusted domain - whitelisted'', s2_reasons = None\<rparr>
              else if (case sr_error result of Some e \<Rightarrow> e \<noteq> [] | None \<Rightarrow> False)
              then \<lparr>s2_success = False, s2_verdict = ''WARN'', s2_score = 0.5, s2_features = None,
                    s2_behavioral = None,
                    s2_reason = ''Browser scan error: '' @
                                (case sr_error result of Some e \<Rightarrow> e | None \<Rightarrow> []),
                    s2_reasons = None\<rparr>
              else
                \<lparr>s2_success = True,
                 s2_verdict = (if score \<ge> 0.7 then ''BLOCK''
                               else if score \<ge> 0.4 then ''WARN'' else ''OK''),
                 s2_score = score, s2_features = Some features, s2_behavioral = Some bflags,
                 s2_reason =
                   (if score \<ge> 0.7 then ''High-risk patterns detected by headless browser''
                    else if score \<ge> 0.4
                      then ''Suspicious behavior detected, manual review recommended''
                    else ''No significant threats detected''),
                 s2_reasons = None\<rparr>))"

section \<open>Orchestrator: the link path (backend/orchestrator.py)\<close>

record stage1_summary =
  st1_verdict :: string
  st1_score :: real
  st1_reasons :: "string list"

text \<open>The dictionary \<open>validate_link\<close> returns. On its error return the keys \<open>stage1\<close> and
  \<open>stage2\<close> are absent (\<open>None\<close> here, as is a \<open>stage2\<close> that is \<open>None\<close>).\<close>

record link_result =
  l_value :: string
  l_error :: "string option"
  l_stage1 :: "stage1_summary option"
  l_stage2 :: "stage2_result option"
  final_verdict :: string
  risk_score :: real
  l_reasons :: "string list"

text \<open>The Stage 2 reasons built from a successful scan.\<close>

definition build_stage2_reasons :: "(string \<times> bool) list \<Rightarrow> string list" where
  "build_stage2_reasons behavioral =
     [if flag behavioral ''trusted_domain''
        then g_check_button @ '' Verified safe by headless browser scan''
      else if flag behavioral ''connection_failed''
        then g_magnifier @ '' Headless browser: Site unreachable''
      else g_magnifier @ '' Analyzed by headless browser''] @
     (if flag behavioral ''suspicious_domain''
        then [g_warning @ '' Browser detected: Suspicious domain pattern''] else []) @
     (if flag behavioral ''has_password_field''
        then [g_warning @ '' Browser detected: Password input field''] else []) @
     (if flag behavioral ''has_otp_field''
        then [g_warning @ '' Browser detected: OTP input field''] else []) @
     (if flag behavioral ''mimics_banking_ui''
        then [g_warning @ '' Browser detected: Fake banking interface''] else []) @
     (if flag behavioral ''redirects_to_different_domain''
        then [g_warning @ '' Browser detected: Suspicious redirect''] else []) @
     (if flag behavioral ''suspicious_javascript''
        then [g_warning @ '' Browser detected: Malicious JavaScript''] else [])"

text \<open>The Stage 2 step: the sub-result kept and the reasons it contributes. \<open>Inl\<close> is an
  exception raised by the Stage 2 validator.\<close>

definition run_stage2 ::
  "(string \<Rightarrow> string + stage2_result) \<Rightarrow> string \<Rightarrow> string \<Rightarrow> stage2_result option \<times> string list" where
  "run_stage2 stage2 url stage1_verdict =
     (if stage1_verdict \<in> set [''WARN'', ''BLOCK'']
      then (case stage2 url of
              Inl e \<Rightarrow> (None, [g_warning @ '' Browser scan failed: '' @ e])
            | Inr r \<Rightarrow>
                if s2_success r
                then (let rs = build_stage2_reasons
                                 (case s2_behavioral r of Some b \<Rightarrow> b | None \<Rightarrow> [])
                      in (Some (r\<lparr>s2_reasons := Some rs\<rparr>), rs))
                else (Some r, []))
      else (None, []))"

text \<open>\<open>validate_link\<close>, over the two stage validators it calls; \<open>Inl\<close> of the first is an
  exception escaping the Stage 1 call, which the outer \<open>except\<close> turns into a result.\<close>

definition validate_link_with ::
  "(string \<Rightarrow> string + url_result) \<Rightarrow> (string \<Rightarrow> string + stage2_result) \<Rightarrow> string \<Rightarrow> link_result" where
  "validate_link_with ml_validate stage2 url =
     (case ml_validate url of
        Inl e \<Rightarrow>
          \<lparr>l_value = url, l_error = Some e, l_stage1 = None, l_stage2 = None,
           final_verdict = ''WARN'', risk_score = 0.5, l_reasons = [''Validation error: '' @ e]\<rparr>
      | Inr ml_result \<Rightarrow>
          (let stage1_verdict = u_verdict ml_result;
               stage1_score = u_score ml_result;
               stage1_reasons = u_reasons ml_result;
               s2 = run_stage2 stage2 url stage1_verdict;
               stage2_result = fst s2;
               all_reasons = take 2 stage1_reasons @ snd s2;
               combined =
                 (case stage2_result of
                    None \<Rightarrow> (stage1_verdict, stage1_score)
                  | Some r \<Rightarrow>
                      if s2_success r
                      then (if stage1_verdict = ''BLOCK'' \<or> s2_verdict r = ''BLOCK'' then ''BLOCK''
                            else if stage1_verdict = ''WARN'' \<or> s2_verdict r = ''WARN'' then ''WARN''
                            else ''OK'',
                            max stage1_score (s2_score r))
                      else (stage1_verdict, stage1_score))
           in \<lparr>l_value = url, l_error = None,
               l_stage1 = Some \<lparr>st1_verdict = stage1_verdict, st1_score = stage1_score,
                                st1_reasons = stage1_reasons\<rparr>,
               l_stage2 = stage2_result,
               final_verdict = fst combined, risk_score = snd combined,
               l_reasons = (if all_reasons \<noteq> [] then all_reasons else [''Analysis completed''])\<rparr>))"

text \<open>\<open>validate_link\<close> with the two validators of this repository, neither of which raises.\<close>

definition validate_link :: "world \<Rightarrow> string \<Rightarrow> link_result" where
  "validate_link w url =
     validate_link_with (\<lambda>u. Inr (validate_url w u)) (\<lambda>u. Inr (validate_url_stage2 w u)) url"

section \<open>VPA format validator (qr\_validation/vpa\_validator.py)\<close>

definition KNOWN_PROVIDERS :: "(string \<times> string) list" where
  "KNOWN_PROVIDERS =
   [(''oksbi'', ''State Bank of India''), (''sbi'', ''State Bank of India''),
    (''okhdfcbank'', ''HDFC Bank''), (''hdfcbank'', ''HDFC Bank''),
    (''okaxis'', ''Axis Bank''), (''axisbank'', ''Axis Bank''),
    (''okicici'', ''ICICI Bank''), (''icici'', ''ICICI Bank''),
    (''federal'', ''Federal Bank''), (''pnb'', ''Punjab National Bank''),
    (''boi'', ''Bank of India''), (''citi'', ''Citibank''), (''sc'', ''Standard Chartered''),
    (''rbl'', ''RBL Bank''), (''kotak'', ''Kotak Mahindra Bank''),
    (''indusind'', ''IndusInd Bank''), (''yesbank'', ''Yes Bank''), (''idbi'', ''IDBI Bank''),
    (''unionbank'', ''Union Bank''), (''canara'', ''Canara Bank''), (''bob'', ''Bank of Baroda''),
    (''paytm'', ''Paytm''), (''paytmqr'', ''Paytm QR''), (''pthdfc'', ''Paytm (HDFC)''),
    (''ptaxis'', ''Paytm (Axis)''), (''ptsbi'', ''Paytm (SBI)''), (''ybl'', ''PhonePe''),
    (''phonepe'', ''PhonePe''), (''apl'', ''Amazon Pay''), (''amazonpay'', ''Amazon Pay''),
    (''ibl'', ''BHIM (Axis)''), (''bim'', ''BHIM''), (''gpay'', ''Google Pay''),
    (''googlepay'', ''Google Pay''), (''okgpay'', ''Google Pay''),
    (''fbl'', ''Freecharge''), (''freecharge'', ''Freecharge''), (''mobikwik'', ''MobiKwik''),
    (''ola'', ''Ola Money''), (''jio'', ''Jio Money''), (''airtel'', ''Airtel Payments Bank''),
    (''airtelbank'', ''Airtel Payments Bank''), (''postbank'', ''India Post Payments Bank''),
    (''payzapp'', ''PayZapp (HDFC)''), (''pockets'', ''Pockets (ICICI)''),
    (''imobile'', ''iMobile (ICICI)''),
    (''razorpay'', ''Razorpay''), (''instamojo'', ''Instamojo''), (''cashfree'', ''Cashfree''),
    (''ccavenue'', ''CCAvenue''), (''billdesk'', ''BillDesk''), (''bharatpe'', ''BharatPe''),
    (''phonepeqr'', ''PhonePe QR''), (''superyes'', ''SuperMoney''),
    (''supermoney'', ''SuperMoney''),
    (''saraswat'', ''Saraswat Bank''), (''kvb'', ''Karur Vysya Bank''), (''dcb'', ''DCB Bank''),
    (''tamilnadmercantile'', ''Tamilnad Mercantile Bank''), (''jkb'', ''Jammu & Kashmir Bank''),
    (''iob'', ''Indian Overseas Bank''), (''indianbank'', ''Indian Bank''),
    (''corpbank'', ''Corporation Bank''),
    (''equitas'', ''Equitas Small Finance Bank''), (''ujjivan'', ''Ujjivan Small Finance Bank''),
    (''au'', ''AU Small Finance Bank''), (''fino'', ''Fino Payments Bank''),
    (''janabank'', ''Jana Small Finance Bank''),
    (''sbicard'', ''SBI Card''), (''axiscard'', ''Axis Bank Credit Card''),
    (''hdfccard'', ''HDFC Credit Card''), (''icicicard'', ''ICICI Credit Card'')]"

text \<open>The character class \<open>[a-zA-Z0-9.\-_]\<close>.\<close>

definition vpa_char :: "char \<Rightarrow> bool" where
  "vpa_char c = (is_ascii_alpha c \<or> is_ascii_digit c \<or> c \<in> set ''.-_'')"

text \<open>\<open>^[a-zA-Z0-9.\-_]{2,256}@[a-zA-Z0-9.\-_]{2,128}$\<close>.\<close>

definition VPA_FORMAT_RE :: "atom list" where
  "VPA_FORMAT_RE = [Cls vpa_char 2 (Some 256), Chr CHR ''@'', Cls vpa_char 2 (Some 128), Eos]"

record vpa_format_result =
  f_verdict :: string
  f_risk_score :: real
  f_reasons :: "string list"
  f_provider :: "string option"

definition validate_vpa_format :: "string \<Rightarrow> vpa_format_result" where
  "validate_vpa_format vpa =
     (if \<not> re_match VPA_FORMAT_RE vpa
      then \<lparr>f_verdict = ''BLOCK'', f_risk_score = 0.9,
            f_reasons = [g_cross @ '' Invalid VPA format''], f_provider = None\<rparr>
      else
        (let provider = lower (after_last CHR ''@'' vpa) in
         case map_of KNOWN_PROVIDERS provider of
           Some name \<Rightarrow>
             \<lparr>f_verdict = ''OK'', f_risk_score = 0.1,
              f_reasons = [g_check @ '' Valid VPA format'', g_check @ '' Verified provider: '' @ name],
              f_provider = Some name\<rparr>
         | None \<Rightarrow>
             \<lparr>f_verdict = ''WARN'', f_risk_score = 0.5,
              f_reasons = [g_check @ '' Valid VPA format'',
                           g_warning @ '' Unrecognized payment provider: '' @ provider,
                           ''This might be a new or regional provider'',
                           g_warning @ '' Verify merchant authenticity before paying''],
              f_provider = Some provider\<rparr>))"

section \<open>Orchestrator: the VPA path\<close>

record vpa_result =
  v_value :: string
  v_verdict :: string
  v_risk_score :: real
  v_reasons :: "string list"
  v_provider :: "string option"

text \<open>\<open>^[a-zA-Z0-9.\-_]{2,}@[a-zA-Z0-9.\-_]{2,}$\<close>, the pattern of the orchestrator's fallback and
  of the QR classifier.\<close>

definition VPA_LOOSE_RE :: "atom list" where
  "VPA_LOOSE_RE = [Cls vpa_char 2 None, Chr CHR ''@'', Cls vpa_char 2 None, Eos]"

text \<open>\<open>validate_vpa\<close>, over the format validator it calls; \<open>Inl\<close> is an exception of that call,
  which sends the function to its inline fallback.\<close>

definition validate_vpa_with ::
  "world \<Rightarrow> (string \<Rightarrow> string + vpa_format_result) \<Rightarrow> string \<Rightarrow> vpa_result" where
  "validate_vpa_with w format_validator vpa0 =
     (let vpa = unquote w vpa0 in
      case format_validator vpa of
        Inr result \<Rightarrow>
          \<lparr>v_value = vpa, v_verdict = f_verdict result, v_risk_score = f_risk_score result,
           v_reasons = f_reasons result, v_provider = f_provider result\<rparr>
      | Inl e \<Rightarrow>
          if \<not> re_match VPA_LOOSE_RE vpa
          then \<lparr>v_value = vpa, v_verdict = ''BLOCK'', v_risk_score = 0.9,
                v_reasons = [''Invalid VPA format''], v_provider = None\<rparr>
          else
            (let provider = lower (after_last CHR ''@'' vpa) in
             if provider \<notin> set [''oksbi'', ''okhdfcbank'', ''okaxis'', ''okicici'', ''apl'', ''ybl'',
                                 ''ibl'', ''paytm'', ''paytmqr'', ''superyes'']
             then \<lparr>v_value = vpa, v_verdict = ''WARN'', v_risk_score = 0.6,
                   v_reasons = [''Unknown payment provider: '' @ provider], v_provider = None\<rparr>
             else \<lparr>v_value = vpa, v_verdict = ''OK'', v_risk_score = 0.1,
                   v_reasons = [''Valid VPA format'', ''Known provider: '' @ provider],
                   v_provider = None\<rparr>))"

definition validate_vpa :: "world \<Rightarrow> string \<Rightarrow> vpa_result" where
  "validate_vpa w vpa = validate_vpa_with w (\<lambda>v. Inr (validate_vpa_format v)) vpa"

section \<open>Orchestrator: the message path\<close>

text \<open>\<open>re.findall\<close> for a pattern without groups: the matches from the left, without overlap;
  an empty match is recorded and the scan moves on by one character.\<close>

function findall :: "atom list \<Rightarrow> char option \<Rightarrow> string \<Rightarrow> string list" where
  "findall rx prev [] = (case rx_match rx prev [] of Some n \<Rightarrow> [[]] | None \<Rightarrow> [])"
| "findall rx prev (c # cs) =
     (case rx_match rx prev (c # cs) of
        None \<Rightarrow> findall rx (Some c) cs
      | Some n \<Rightarrow>
          if n = 0 then [] # findall rx (Some c) cs
          else take n (c # cs) # findall rx (Some (last (take n (c # cs)))) (drop n (c # cs)))"
  by pat_completeness auto
termination
  by (relation "measure (\<lambda>(rx, prev, s). length s)") auto

text \<open>\<open>https?://[^\s]+\<close> and \<open>\b\d{10}\b\<close>.\<close>

definition URL_RE :: "atom list" where
  "URL_RE = lit ''http'' @ [Cls (\<lambda>c. c = CHR ''s'') 0 (Some 1)] @ lit ''://'' @
            [Cls (\<lambda>c. \<not> is_space c) 1 None]"

definition PHONE_RE :: "atom list" where
  "PHONE_RE = [WordB, Cls is_ascii_digit 10 (Some 10), WordB]"

definition suspicious_keywords :: "string list" where
  "suspicious_keywords =
   [''kyc'', ''verify'', ''suspended'', ''blocked'', ''expire'', ''update'',
    ''urgent'', ''immediately'', ''click here'', ''limited time'',
    ''congratulations'', ''winner'', ''prize'', ''lottery'', ''cashback'',
    ''refund'', ''reward'', ''claim'', ''account'', ''bank'']"

record url_entry =
  e_url :: string
  e_verdict :: string
  e_stage1 :: "stage1_summary option"
  e_stage2 :: "stage2_result option"

record msg_result =
  m_value :: string
  m_verdict :: string
  m_risk_score :: real
  m_reasons :: "string list"
  m_extracted_urls :: "url_entry list option"

text \<open>The state of the URL loop: the risk so far, the reasons so far, the entries so far.\<close>

type_synonym msg_state = "real \<times> string list \<times> url_entry list"

definition url_step :: "world \<Rightarrow> string \<Rightarrow> msg_state \<Rightarrow> msg_state" where
  "url_step w url0 st =
     (let url = rstrip ''.,;:)]}'' url0;
          link_result = validate_link w url;
          url_verdict = final_verdict link_result;
          entry = \<lparr>e_url = url, e_verdict = url_verdict, e_stage1 = l_stage1 link_result,
                   e_stage2 = l_stage2 link_result\<rparr>;
          risk = fst st; reasons = fst (snd st); entries = snd (snd st)
      in if url_verdict = ''BLOCK''
         then (risk + 0.5, reasons @ [g_no_entry @ '' Blocked URL detected: '' @ take 50 url],
               entries @ [entry])
         else if url_verdict = ''WARN''
         then (risk + 0.3, reasons @ [g_warning @ '' Suspicious URL: '' @ take 50 url],
               entries @ [entry])
         else (risk, reasons, entries @ [entry]))"

fun url_loop :: "world \<Rightarrow> string list \<Rightarrow> msg_state \<Rightarrow> msg_state" where
  "url_loop w [] st = st"
| "url_loop w (url # urls) st = url_loop w urls (url_step w url st)"

definition validate_message :: "world \<Rightarrow> string \<Rightarrow> msg_result" where
  "validate_message w message =
     (let message_lower = lower message;
          found_keywords = filter (\<lambda>kw. contains kw message_lower) suspicious_keywords;
          st0 = (if found_keywords \<noteq> []
                 then (0.15 * real (length found_keywords),
                       [''Suspicious keywords: '' @ join '', '' (take 3 found_keywords)], [])
                 else (0, [], []));
          urls = findall URL_RE None message;
          st1 = url_loop w urls st0;
          phones = findall PHONE_RE None message;
          risk_score = (if phones \<noteq> [] then fst st1 + 0.1 else fst st1);
          reasons = (if phones \<noteq> []
                     then fst (snd st1) @ [''Contains '' @ str_nat (length phones) @ '' phone number(s)'']
                     else fst (snd st1));
          url_results = snd (snd st1)
      in \<lparr>m_value = message,
          m_verdict = (if risk_score \<ge> 0.7 then ''BLOCK'' else if risk_score \<ge> 0.3 then ''WARN'' else ''OK''),
          m_risk_score = min risk_score 1.0,
          m_reasons = (if reasons \<noteq> [] then reasons else [''No immediate threats detected'']),
          m_extracted_urls = (if url_results \<noteq> [] then Some url_results else None)\<rparr>)"

section \<open>QR parsing (qr\_validation/qr\_parser.py, qr\_utils.py)\<close>

text \<open>\<open>str.isalnum\<close> of one character, on code points below 256.\<close>

definition is_alnum :: "char \<Rightarrow> bool" where
  "is_alnum c = (is_word c \<and> c \<noteq> CHR ''_'')"

definition starts_any :: "string \<Rightarrow> string list \<Rightarrow> bool" where
  "starts_any s ps = list_ex (startswith s) ps"

definition identify_qr_content_type :: "string \<Rightarrow> string" where
  "identify_qr_content_type data =
     (let data_lower = lower data in
      if starts_any data [''00020101'', ''00020201''] then ''protected_payment''
      else if \<not> startswith data ''http'' \<and>
              list_ex (\<lambda>kw. contains kw data_lower)
                [''bhim'', ''phonepe'', ''paytmmp'', ''paytmqr'', ''bharatpe'', ''gpay'']
        then ''protected_payment''
      else if starts_any data [''upi://'', ''upi://pay''] then ''upi''
      else if starts_any data [''http://'', ''https://''] then ''url''
      else if contains ''@'' data \<and> \<not> starts_any data [''http'', ''upi'', ''mailto''] \<and>
              re_match VPA_LOOSE_RE data
        then ''vpa''
      else if startswith data ''geo:'' \<or> contains ''google.navigation:'' data then ''geo''
      else if startswith data ''tel:'' then ''tel''
      else if startswith data ''mailto:'' then ''mailto''
      else if startswith data ''sms:'' then ''sms''
      else if startswith data ''WIFI:'' then ''wifi''
      else if startswith data ''BEGIN:VCARD'' then ''vcard''
      else if startswith data ''intent://'' then ''intent''
      else if length data < 200 \<and>
              (let stripped = str_remove [newline] (str_remove ''_'' (str_remove ''-'' (str_remove '' '' data)))
               in stripped \<noteq> [] \<and> list_all is_alnum stripped)
        then ''text''
      else ''unknown'')"

text \<open>\<open>re.search\<close>: the text of the leftmost match.\<close>

fun re_search :: "atom list \<Rightarrow> char option \<Rightarrow> string \<Rightarrow> string option" where
  "re_search rx prev [] = (case rx_match rx prev [] of Some n \<Rightarrow> Some [] | None \<Rightarrow> None)"
| "re_search rx prev (c # cs) =
     (case rx_match rx prev (c # cs) of
        Some n \<Rightarrow> Some (take n (c # cs))
      | None \<Rightarrow> re_search rx (Some c) cs)"

text \<open>\<open>pa=([^&]+)\<close>; its group is the match without the three characters \<open>pa=\<close>.\<close>

definition PA_RE :: "atom list" where
  "PA_RE = lit ''pa='' @ [Cls (\<lambda>c. c \<noteq> CHR ''&'') 1 None]"

record qr_parse =
  p_type :: string
  p_data :: string
  p_vpa :: "string option"

text \<open>\<open>parse_qr_image\<close>; \<open>Inl\<close> is the text of the \<open>error\<close> dictionary. \<open>decode_qr\<close> of the world
  is the image decoder, \<open>None\<close> when it finds no code or fails.\<close>

definition parse_qr_image :: "world \<Rightarrow> string \<Rightarrow> string + qr_parse" where
  "parse_qr_image w file_data =
     (case decode_qr w file_data of
        None \<Rightarrow> Inl ''No QR code found in image''
      | Some decoded_data \<Rightarrow>
          if decoded_data = [] then Inl ''No QR code found in image''
          else
            (let qr_type = identify_qr_content_type decoded_data in
             Inr \<lparr>p_type = qr_type, p_data = decoded_data,
                  p_vpa = (if qr_type = ''upi''
                           then map_option (drop 3) (re_search PA_RE None decoded_data)
                           else None)\<rparr>))"

definition g_lock :: string where "g_lock = [CHR 0xF0, CHR 0x9F, CHR 0x94, CHR 0x92]"
definition g_pushpin :: string where "g_pushpin = [CHR 0xF0, CHR 0x9F, CHR 0x93, CHR 0x8D]"
definition g_telephone :: string where "g_telephone = [CHR 0xF0, CHR 0x9F, CHR 0x93, CHR 0x9E]"
definition g_email :: string where "g_email = [CHR 0xF0, CHR 0x9F, CHR 0x93, CHR 0xA7]"
definition g_speech :: string where "g_speech = [CHR 0xF0, CHR 0x9F, CHR 0x92, CHR 0xAC]"
definition g_antenna :: string where "g_antenna = [CHR 0xF0, CHR 0x9F, CHR 0x93, CHR 0xB6]"
definition g_bust :: string where "g_bust = [CHR 0xF0, CHR 0x9F, CHR 0x91, CHR 0xA4]"
definition g_mobile :: string where "g_mobile = [CHR 0xF0, CHR 0x9F, CHR 0x93, CHR 0xB2]"
definition g_link :: string where "g_link = [CHR 0xF0, CHR 0x9F, CHR 0x94, CHR 0x97]"

definition qr_descriptions :: "(string \<times> string \<times> real \<times> string list) list" where
  "qr_descriptions =
   [(''protected_payment'', ''OK'', 0.05,
       [g_lock @ '' Encrypted payment QR code'',
        ''Can only be processed within official payment app'',
        ''Protected against tampering - Safe to scan'']),
    (''upi'', ''OK'', 0.2, [''Standard UPI payment QR'', ''VPA will be validated'']),
    (''geo'', ''OK'', 0.1, [g_pushpin @ '' Location/Navigation QR'', ''Safe - Opens in maps app'']),
    (''vpa'', ''OK'', 0.2, [''Plain VPA address'', ''Payment provider will be validated'']),
    (''tel'', ''OK'', 0.1, [g_telephone @ '' Phone number'', ''Safe - Opens dialer'']),
    (''mailto'', ''OK'', 0.1, [g_email @ '' Email address'', ''Safe - Opens email client'']),
    (''sms'', ''OK'', 0.1, [g_speech @ '' SMS/Message'', ''Safe - Opens messaging app'']),
    (''wifi'', ''OK'', 0.1, [g_antenna @ '' WiFi credentials'', ''Safe - For network connection'']),
    (''vcard'', ''OK'', 0.1, [g_bust @ '' Contact card'', ''Safe - Adds contact'']),
    (''intent'', ''OK'', 0.15, [g_mobile @ '' App intent'', ''Opens specific application'']),
    (''text'', ''OK'', 0.15, [''Plain text/code'', ''No fraud indicators'']),
    (''url'', ''WARN'', 0.5,
       [g_link @ '' URL detected - Running ML analysis...'',
        ''All URLs are validated through 2-stage detection'',
        ''No domain is whitelisted by default'']),
    (''unknown'', ''WARN'', 0.4, [g_warning @ '' Unknown QR format'', ''Scan with caution''])]"

definition get_qr_description :: "string \<Rightarrow> string \<Rightarrow> string \<times> real \<times> string list" where
  "get_qr_description qr_type data =
     (case map_of qr_descriptions qr_type of
        Some d \<Rightarrow> d
      | None \<Rightarrow> (''WARN'', 0.5, [''Unknown QR type'']))"

section \<open>Orchestrator: the QR path\<close>

definition type_names :: "(string \<times> string) list" where
  "type_names =
   [(''protected_payment'', ''Protected Payment QR''), (''geo'', ''Location/Maps QR''),
    (''social_media'', ''Social Media Link QR''), (''tel'', ''Phone Number QR''),
    (''mailto'', ''Email Address QR''), (''sms'', ''SMS QR''), (''wifi'', ''WiFi Credentials QR''),
    (''vcard'', ''Contact Card QR''), (''intent'', ''App Intent QR''), (''text'', ''Plain Text QR''),
    (''unknown'', ''Unknown Format QR'')]"

record qr_result =
  q_value :: string
  q_qr_type :: string
  q_verdict :: string
  q_risk_score :: real
  q_reasons :: "string list"
  q_decoded_url :: "string option"
  q_vpa :: "string option"
  q_decoded :: "string option"
  q_stage1 :: "stage1_summary option"
  q_stage2 :: "stage2_result option"

text \<open>The score the URL branch reports:
  \<open>(stage2.get("score") if stage2 else None) or stage1.get("score", 0)\<close>. Python's \<open>or\<close>
  passes on to its right operand when the left one is \<open>None\<close> or zero.\<close>

definition qr_url_risk_score :: "stage1_summary option \<Rightarrow> stage2_result option \<Rightarrow> real" where
  "qr_url_risk_score stage1 stage2 =
     (let left = (case stage2 of Some r \<Rightarrow> Some (s2_score r) | None \<Rightarrow> None);
          right = (case stage1 of Some s \<Rightarrow> st1_score s | None \<Rightarrow> 0)
      in case left of
           Some x \<Rightarrow> if x \<noteq> 0 then x else right
         | None \<Rightarrow> right)"

text \<open>The result of the UPI branch when no payee address could be read.\<close>

definition malformed_upi :: "string \<Rightarrow> qr_result" where
  "malformed_upi qr_data =
     \<lparr>q_value = take 50 qr_data, q_qr_type = ''Malformed UPI QR'',
      q_verdict = ''WARN'', q_risk_score = 0.5,
      q_reasons = [''Could not extract VPA from UPI QR''],
      q_decoded_url = None, q_vpa = None, q_decoded = None,
      q_stage1 = None, q_stage2 = None\<rparr>"

text \<open>\<open>validate_qr\<close>; \<open>Inl\<close> is the text of an \<open>error\<close> dictionary. The fields a branch
  does not set are \<open>None\<close>; \<open>if vpa:\<close> holds for a payee address that is present and not
  empty.\<close>

definition validate_qr :: "world \<Rightarrow> string \<Rightarrow> string + qr_result" where
  "validate_qr w file_data =
     (case parse_qr_image w file_data of
        Inl e \<Rightarrow> Inl e
      | Inr qr \<Rightarrow>
          (let qr_type = p_type qr; qr_data = p_data qr;
               dflt = get_qr_description qr_type qr_data
           in if qr_type = ''url''
              then (let link_result = validate_link w qr_data;
                        stage1 = l_stage1 link_result;
                        stage2 = l_stage2 link_result
                    in Inr \<lparr>q_value = qr_data, q_qr_type = ''URL QR Code'',
                            q_verdict = final_verdict link_result,
                            q_risk_score = qr_url_risk_score stage1 stage2,
                            q_reasons = l_reasons link_result,
                            q_decoded_url = Some qr_data, q_vpa = None, q_decoded = None,
                            q_stage1 = stage1, q_stage2 = stage2\<rparr>)
              else if qr_type = ''upi''
              then (case p_vpa qr of
                      Some vpa0 \<Rightarrow>
                        if vpa0 \<noteq> []
                        then (let vpa = unquote w vpa0;
                                  vpa_result = validate_vpa w vpa
                              in Inr \<lparr>q_value = ''[UPI Payment QR]'', q_qr_type = ''UPI Payment QR'',
                                      q_verdict = v_verdict vpa_result,
                                      q_risk_score = v_risk_score vpa_result,
                                      q_reasons = v_reasons vpa_result,
                                      q_decoded_url = None, q_vpa = Some vpa, q_decoded = None,
                                      q_stage1 = None, q_stage2 = None\<rparr>)
                        else Inr (malformed_upi qr_data)
                    | None \<Rightarrow> Inr (malformed_upi qr_data))
              else if qr_type = ''vpa''
              then (let vpa_result = validate_vpa w qr_data
                    in Inr \<lparr>q_value = qr_data, q_qr_type = ''Plain VPA QR'',
                            q_verdict = v_verdict vpa_result,
                            q_risk_score = v_risk_score vpa_result,
                            q_reasons = v_reasons vpa_result,
                            q_decoded_url = None, q_vpa = None, q_decoded = None,
                            q_stage1 = None, q_stage2 = None\<rparr>)
              else Inr \<lparr>q_value = (if length qr_data > 100 then take 100 qr_data else qr_data),
                        q_qr_type = (case map_of type_names qr_type of
                                       Some n \<Rightarrow> n | None \<Rightarrow> ''Unknown QR''),
                        q_verdict = fst dflt, q_risk_score = fst (snd dflt),
                        q_reasons = snd (snd dflt),
                        q_decoded_url = None, q_vpa = None,
                        q_decoded = Some (if qr_type \<noteq> ''protected_payment'' then qr_data
                                          else ''[Encrypted Data]''),
                        q_stage1 = None, q_stage2 = None\<rparr>))"

section \<open>Orchestrator: dispatch and the in-process cache\<close>

text \<open>
  \<open>validate_input\<close> handles its results as plain dictionaries: it adds two keys, looks for the
  key \<open>error\<close>, and stores. A dictionary is an association list in insertion order, with
  Python's assignment (\<open>dict_set\<close>) replacing a present key in place.
\<close>

datatype pyval =
    PNone
  | PBool bool
  | PInt int
  | PFloat real
  | PStr string
  | PList "pyval list"
  | PDict "(string \<times> pyval) list"

type_synonym pydict = "(string \<times> pyval) list"

fun dict_set :: "pydict \<Rightarrow> string \<Rightarrow> pyval \<Rightarrow> pydict" where
  "dict_set [] k v = [(k, v)]"
| "dict_set ((k', v') # d) k v = (if k' = k then (k, v) # d else (k', v') # dict_set d k v)"

definition has_key :: "pydict \<Rightarrow> string \<Rightarrow> bool" where
  "has_key d k = (map_of d k \<noteq> None)"

text \<open>\<open>_VALIDATION_CACHE\<close>: cache key to result and timestamp (seconds).\<close>

type_synonym cache = "string \<Rightarrow> (pydict \<times> real) option"

definition CACHE_EXPIRY_SECONDS :: real where
  "CACHE_EXPIRY_SECONDS = 24 * 3600"

text \<open>What \<open>validate_input\<close> calls: the MD5 hex digest, and the four path handlers as
  functions that return a dictionary or raise (\<open>Inl\<close>, the exception's text). The handlers
  do not touch the cache.\<close>

record dispatch =
  md5_hex :: "string \<Rightarrow> string"
  on_link :: "string option \<Rightarrow> string + pydict"
  on_vpa :: "string option \<Rightarrow> string + pydict"
  on_message :: "string option \<Rightarrow> string + pydict"
  on_qr :: "string option \<Rightarrow> string + pydict"

text \<open>The clock readings of one call, in the order the source takes them: \<open>time.time()\<close> at
  the start, \<open>datetime.now()\<close> in the cache lookup, \<open>time.time()\<close> when the response time is
  taken, \<open>datetime.now()\<close> in the cache store.\<close>

record clock =
  t_start :: real
  t_lookup :: real
  t_end :: real
  t_save :: real

definition py_str_opt :: "string option \<Rightarrow> string" where
  "py_str_opt v = (case v of None \<Rightarrow> ''None'' | Some s \<Rightarrow> s)"

definition get_cache_key :: "dispatch \<Rightarrow> string \<Rightarrow> string option \<Rightarrow> string option \<Rightarrow> string" where
  "get_cache_key d input_type val file_data =
     (if (case file_data of Some b \<Rightarrow> b \<noteq> [] | None \<Rightarrow> False)
      then ''qr:'' @ md5_hex d (case file_data of Some b \<Rightarrow> b | None \<Rightarrow> [])
      else md5_hex d (input_type @ '':'' @ py_str_opt val))"

definition get_from_cache :: "cache \<Rightarrow> real \<Rightarrow> string \<Rightarrow> pydict option \<times> cache" where
  "get_from_cache c now cache_key =
     (case c cache_key of
        None \<Rightarrow> (None, c)
      | Some (result, timestamp) \<Rightarrow>
          if now - timestamp < CACHE_EXPIRY_SECONDS then (Some result, c)
          else (None, c(cache_key := None)))"

definition save_to_cache :: "cache \<Rightarrow> real \<Rightarrow> string \<Rightarrow> pydict \<Rightarrow> cache" where
  "save_to_cache c now cache_key result = c(cache_key \<mapsto> (result, now))"

text \<open>\<open>int(x)\<close> of a float: truncation towards zero.\<close>

definition py_int :: "real \<Rightarrow> int" where
  "py_int x = (if x \<ge> 0 then \<lfloor>x\<rfloor> else \<lceil>x\<rceil>)"

definition run_handler :: "dispatch \<Rightarrow> string \<Rightarrow> string option \<Rightarrow> string option \<Rightarrow> string + pydict" where
  "run_handler d input_type val file_data =
     (if input_type = ''link'' then on_link d val
      else if input_type = ''vpa'' then on_vpa d val
      else if input_type = ''message'' then on_message d val
      else if input_type = ''qr'' then on_qr d file_data
      else Inr [(''error'', PStr ''Invalid type'')])"

text \<open>The path of a cache miss: the handler runs inside the \<open>try\<close>; its result is stamped
  and, without an \<open>error\<close> key, stored; an exception becomes the bare error dictionary.\<close>

definition on_miss ::
  "dispatch \<Rightarrow> clock \<Rightarrow> cache \<Rightarrow> string \<Rightarrow> string \<Rightarrow> string option \<Rightarrow> string option \<Rightarrow> pydict \<times> cache" where
  "on_miss d clk c1 cache_key input_type val file_data =
     (case run_handler d input_type val file_data of
        Inl e \<Rightarrow> ([(''error'', PStr e)], c1)
      | Inr result0 \<Rightarrow>
          (let result = dict_set (dict_set result0 ''cached'' (PBool False)) ''response_time_ms''
                          (PInt (py_int ((t_end clk - t_start clk) * 1000)))
           in if \<not> has_key result ''error''
              then (result, save_to_cache c1 (t_save clk) cache_key result)
              else (result, c1)))"

text \<open>\<open>validate_input\<close>: the returned dictionary and the cache afterwards. A cached result
  that is an empty dictionary counts as a miss (\<open>if cached_result:\<close>).\<close>

definition validate_input ::
  "dispatch \<Rightarrow> clock \<Rightarrow> cache \<Rightarrow> string \<Rightarrow> string option \<Rightarrow> string option \<Rightarrow> pydict \<times> cache" where
  "validate_input d clk c input_type val file_data =
     (let cache_key = get_cache_key d input_type val file_data;
          looked = get_from_cache c (t_lookup clk) cache_key;
          c1 = snd looked
      in case fst looked of
           Some cached_result \<Rightarrow>
             if cached_result \<noteq> []
             then (dict_set (dict_set cached_result ''cached'' (PBool True)) ''response_time_ms''
                     (PInt (py_int ((t_end clk - t_start clk) * 1000))), c1)
             else on_miss d clk c1 cache_key input_type val file_data
         | None \<Rightarrow> on_miss d clk c1 cache_key input_type val file_data)"

section \<open>Stage 2 fallback engine (stage2\_dynamic/fallback\_engine.py)\<close>

record risk_result =
  fr_level :: string
  fr_score :: real
  fr_action :: string
  fr_reasons :: "string list"

definition fallback_risk ::
  "real \<Rightarrow> int \<Rightarrow> bool \<Rightarrow> bool \<Rightarrow> int option \<Rightarrow> bool \<Rightarrow> risk_result" where
  "fallback_risk static_score hard_rule_hits tls_ok upi_in_url whois_age_days in_blacklist =
     (let risk0 = static_score * 100;
          risk1 = (if hard_rule_hits \<noteq> 0 then risk0 + 20 * real_of_int (min hard_rule_hits 3) else risk0);
          reasons1 = (if hard_rule_hits \<noteq> 0 then [''hard_rules:'' @ str_int hard_rule_hits] else [])
      in if in_blacklist
         then \<lparr>fr_level = ''HIGH'', fr_score = 100, fr_action = ''BLOCK'',
               fr_reasons = reasons1 @ [''in_blacklist'']\<rparr>
         else
           (let risk2 = (if \<not> tls_ok then risk1 + 25 else risk1);
                reasons2 = (if \<not> tls_ok then reasons1 @ [''tls_bad''] else reasons1);
                risk3 = (if upi_in_url then risk2 + 30 else risk2);
                reasons3 = (if upi_in_url then reasons2 @ [''upi_in_url''] else reasons2);
                aged =
                  (case whois_age_days of
                     None \<Rightarrow> (risk3, reasons3)
                   | Some days \<Rightarrow>
                       if days < 7 then (risk3 + 30, reasons3 @ [''whois<7d''])
                       else if days < 30 then (risk3 + 15, reasons3 @ [''whois<30d''])
                       else if days < 180 then (risk3 + 5, reasons3 @ [''whois<180d''])
                       else (risk3, reasons3));
                score = max 0 (min 100 (fst aged))
            in if score \<ge> 70
               then \<lparr>fr_level = ''HIGH'', fr_score = score, fr_action = ''BLOCK'', fr_reasons = snd aged\<rparr>
               else if score \<ge> 40
               then \<lparr>fr_level = ''MEDIUM'', fr_score = score, fr_action = ''CHALLENGE'',
                     fr_reasons = snd aged\<rparr>
               else \<lparr>fr_level = ''LOW'', fr_score = score, fr_action = ''ALLOW_WITH_LOG'',
                     fr_reasons = snd aged\<rparr>))"

section \<open>VPA utilities (vpa\_validation/vpa\_utils.py)\<close>

text \<open>The names the module binds at its top level: four imports, two constants and seven
  functions.\<close>

definition VPA_UTILS_NAMES :: "string list" where
  "VPA_UTILS_NAMES =
   [''re'', ''hashlib'', ''math'', ''Counter'', ''VPA_RE'', ''DEFAULT_ALLOWLIST'',
    ''parse_vpa'', ''looks_like_vpa'', ''vpa_format_score'', ''vpa_entropy'',
    ''provider_allowlist_check'', ''hash_vpa'', ''vpa_suspicious_flags'']"

section \<open>VPA rule engine (vpa\_validation/vpa\_rules.py)\<close>

text \<open>
  \<open>from source import a, b, c\<close> binds the names in order and raises \<open>ImportError\<close> (the
  name, the source module) at the first one the source module does not have; the importing
  module then does not load.
\<close>

datatype import_error = ImportError string string

definition import_from :: "string \<Rightarrow> string list \<Rightarrow> string list \<Rightarrow> import_error option" where
  "import_from source bound names =
     map_option (\<lambda>name. ImportError name source) (find (\<lambda>name. name \<notin> set bound) names)"

text \<open>The first statement of \<open>vpa_rules.py\<close>:
  \<open>from vpa_validation.vpa_utils import is_valid_format, get_provider, entropy\<close>.\<close>

definition load_vpa_rules :: "import_error option" where
  "load_vpa_rules =
     import_from ''vpa_validation.vpa_utils'' VPA_UTILS_NAMES
       [''is_valid_format'', ''get_provider'', ''entropy'']"

text \<open>What the three imported names would stand for in the body of \<open>apply_vpa_rules\<close>; a
  provider that is \<open>None\<close> prints as \<open>None\<close>.\<close>

record vpa_helpers =
  is_valid_format :: "string \<Rightarrow> bool"
  get_provider :: "string \<Rightarrow> string option"
  entropy :: "string \<Rightarrow> real"

definition ALLOWED_PROVIDERS :: "string list" where
  "ALLOWED_PROVIDERS =
   [''oksbi'', ''okhdfcbank'', ''okaxis'', ''okicici'',
    ''oksbi'', ''okyesbank'', ''okkotak'', ''okboi'',
    ''okupi'', ''okidfc'', ''ybl'', ''upi'']"

definition SUSPICIOUS_AMOUNTS :: "real list" where
  "SUSPICIOUS_AMOUNTS = [1, 2, 5, 10]"

record rules_result =
  r_vpa :: string
  hard_fail :: "string list"
  soft_flags :: "string list"

definition provider_allowed :: "string option \<Rightarrow> bool" where
  "provider_allowed p = (case p of None \<Rightarrow> False | Some s \<Rightarrow> s \<in> set ALLOWED_PROVIDERS)"

definition amount_suspicious :: "real option \<Rightarrow> bool" where
  "amount_suspicious a = (case a of None \<Rightarrow> False | Some x \<Rightarrow> x \<in> set SUSPICIOUS_AMOUNTS)"

text \<open>The body of \<open>apply_vpa_rules\<close>, over what the imported names stand for.\<close>

definition apply_vpa_rules_body :: "vpa_helpers \<Rightarrow> string \<Rightarrow> real option \<Rightarrow> rules_result" where
  "apply_vpa_rules_body h vpa0 amount =
     (let vpa = lower vpa0;
          provider = get_provider h vpa
      in \<lparr>r_vpa = vpa,
          hard_fail =
            (if \<not> is_valid_format h vpa then [''Invalid VPA format''] else []) @
            (if \<not> provider_allowed provider
             then [''Provider '' @ [CHR 0x27] @ py_str_opt provider @ [CHR 0x27] @ '' not in trusted list'']
             else []),
          soft_flags =
            (if entropy h vpa > 3.7 then [''High randomness in VPA (entropy anomaly)''] else []) @
            (if amount_suspicious amount then [''Amount is common scam range (1/2/5/10)''] else []) @
            (if length (before_first CHR ''@'' vpa) \<le> 3
             then [''Very short handle '' @ [CHR 0xE2, CHR 0xE2, CHR 0x82, CHR 0xAC, CHR 0xE2, CHR 0x80, CHR 0x9C] @
                   '' suspicious'']
             else [])\<rparr>)"

text \<open>A call of \<open>apply_vpa_rules\<close>: the module is loaded first, and a failing import is what
  the caller gets.\<close>

definition apply_vpa_rules :: "vpa_helpers \<Rightarrow> string \<Rightarrow> real option \<Rightarrow> import_error + rules_result" where
  "apply_vpa_rules h vpa amount =
     (case load_vpa_rules of
        Some e \<Rightarrow> Inl e
      | None \<Rightarrow> Inr (apply_vpa_rules_body h vpa amount))"

section \<open>VPA reputation store (vpa\_validation/vpa\_reputation.py)\<close>

record reputation =
  reports :: int
  trust :: real

text \<open>\<open>VPA_REPUTATION\<close>.\<close>

type_synonym rep_store = "string \<Rightarrow> reputation option"

definition default_reputation :: reputation where
  "default_reputation = \<lparr>reports = 0, trust = 0.50\<rparr>"

text \<open>\<open>get_reputation\<close>: the value returned and the store afterwards.\<close>

definition get_reputation :: "rep_store \<Rightarrow> string \<Rightarrow> reputation \<times> rep_store" where
  "get_reputation store vpa0 =
     (let vpa = lower vpa0 in
      (case store vpa of Some r \<Rightarrow> r | None \<Rightarrow> default_reputation, store))"

definition update_reputation :: "rep_store \<Rightarrow> string \<Rightarrow> bool \<Rightarrow> rep_store" where
  "update_reputation store vpa0 is_scam =
     (let vpa = lower vpa0;
          r = (case store vpa of Some r \<Rightarrow> r | None \<Rightarrow> \<lparr>reports = 0, trust = 0.5\<rparr>)
      in if is_scam
         then store(vpa \<mapsto> \<lparr>reports = reports r + 1, trust = trust r * 0.75\<rparr>)
         else store(vpa \<mapsto> r\<lparr>trust := min 1.0 (trust r + 0.05)\<rparr>))"

section \<open>A world to run the model in\<close>

text \<open>
  \<open>offline_world\<close> is a deployment with no model artifacts and no network: the scanner
  module loads, every fetch fails with a \<open>requests\<close> exception and no image decodes. Its \<open>urlparse\<close> is \<open>urlparse_netloc\<close>;
  \<open>round\<close> and the \<open>.2f\<close> format work on decimals; \<open>unquote\<close> decodes the escapes below \<open>%80\<close>
  and leaves the others as they are.
\<close>

definition hex_val :: "char \<Rightarrow> nat option" where
  "hex_val c =
     (if is_ascii_digit c then Some (chr_code c - 48)
      else if 97 \<le> chr_code c \<and> chr_code c \<le> 102 then Some (chr_code c - 87)
      else if 65 \<le> chr_code c \<and> chr_code c \<le> 70 then Some (chr_code c - 55)
      else None)"

fun unquote_ascii :: "string \<Rightarrow> string" where
  "unquote_ascii (a # b # c # r) =
     (case (if a = CHR ''%'' then hex_val b else None, hex_val c) of
        (Some h, Some l) \<Rightarrow>
          if 16 * h + l < 128 then char_of (16 * h + l) # unquote_ascii r
          else a # unquote_ascii (b # c # r)
      | _ \<Rightarrow> a # unquote_ascii (b # c # r))"
| "unquote_ascii s = s"

definition round2_decimal :: "real \<Rightarrow> real" where
  "round2_decimal x = real_of_int (round (x * 100)) / 100"

definition fmt2_decimal :: "real \<Rightarrow> string" where
  "fmt2_decimal x =
     (let n = nat (round (\<bar>x\<bar> * 100)) in
      (if x < 0 \<and> n \<noteq> 0 then ''-'' else []) @ str_nat (n div 100) @ ''.'' @
      [char_of (48 + n div 10 mod 10), char_of (48 + n mod 10)])"

definition offline_world :: world where
  "offline_world =
     \<lparr>url_netloc = urlparse_netloc, unquote = unquote_ascii,
      stage1_ml = (\<lambda>url. ModelsUnavailable),
      round2 = round2_decimal, fmt2 = fmt2_decimal,
      http_get = (\<lambda>url. HttpRequestException),
      stage2_ml = (\<lambda>url content fl. NoDynamicModel),
      scanner_import = None,
      decode_qr = (\<lambda>file_data. None)\<rparr>"

text \<open>The offline world with an image decoder that reads one QR code, a phishing link.\<close>

definition qr_world :: world where
  "qr_world = offline_world\<lparr>decode_qr := (\<lambda>file_data. Some ''https://login-verify.com/secure'')\<rparr>"

text \<open>Handlers and clock readings to run \<open>validate_input\<close> with: a link handler that returns a
  verdict, a VPA handler that raises, a message and a QR handler that return an error
  dictionary; the digest is a stand-in (the identity). The call takes a quarter of a second.\<close>

definition demo_dispatch :: dispatch where
  "demo_dispatch =
     \<lparr>md5_hex = (\<lambda>s. s),
      on_link = (\<lambda>v. Inr [(''final_verdict'', PStr ''OK'')]),
      on_vpa = (\<lambda>v. Inl ''boom''),
      on_message = (\<lambda>v. Inr [(''error'', PStr ''bad''), (''verdict'', PStr ''WARN'')]),
      on_qr = (\<lambda>v. Inr [(''error'', PStr ''No QR code found in image'')])\<rparr>"

definition demo_clock :: clock where
  "demo_clock = \<lparr>t_start = 100, t_lookup = 100, t_end = 100.25, t_save = 101\<rparr>"

section \<open>Facts about the string functions\<close>

lemma lower_char_idem: "lower_char (lower_char c) = lower_char c"
  by (auto simp add: lower_char_def is_ascii_upper_def chr_code_def)

lemma set_str_remove: "set (str_remove old s) \<subseteq> set s"
proof (induction old s rule: str_remove.induct)
  case (1 old)
  then show ?case by simp
next
  case (2 old c cs)
  show ?case
  proof (cases "old \<noteq> [] \<and> startswith (c # cs) old")
    case True
    then have "set (str_remove old (c # cs)) \<subseteq> set (drop (length old) (c # cs))"
      using 2 by simp
    also have "\<dots> \<subseteq> set (c # cs)" by (rule set_drop_subset)
    finally show ?thesis .
  next
    case False
    then show ?thesis using 2 by auto
  qed
qed

text \<open>Removing text from a lower-cased string leaves it lower-cased.\<close>

lemma lower_str_remove_lower: "lower (str_remove old (lower n)) = str_remove old (lower n)"
proof -
  have "\<forall>x \<in> set (str_remove old (lower n)). lower_char x = x"
    using set_str_remove [of old "lower n"] by (auto simp add: lower_def lower_char_idem)
  then show ?thesis by (simp add: lower_def map_idI)
qed


lemma endswith_iff: "endswith s p = (\<exists>xs. s = xs @ p)"
proof
  assume "endswith s p"
  then have "s = take (length s - length p) s @ p"
    by (metis append_take_drop_id endswith_def)
  then show "\<exists>xs. s = xs @ p" ..
next
  assume "\<exists>xs. s = xs @ p"
  then show "endswith s p" by (auto simp add: endswith_def)
qed

lemma startswith_split: "startswith s p \<Longrightarrow> s = p @ drop (length p) s"
  by (metis append_take_drop_id startswith_def)

section \<open>Facts about the patterns\<close>

text \<open>A greedy repetition with backtracking matches exactly when some admissible number of
  characters of the class can be consumed and the rest of the pattern matches what follows.\<close>

lemma cls_match_iff:
  "(rx_match (Cls P lo hi # r) prev s \<noteq> None) =
     (\<exists>n \<le> length s. lo \<le> n \<and> (\<forall>h. hi = Some h \<longrightarrow> n \<le> h) \<and> list_all P (take n s) \<and>
        rx_match r (if n = 0 then prev else Some (s ! (n - 1))) (drop n s) \<noteq> None)"
proof (induction s arbitrary: lo hi prev)
  case Nil
  then show ?case by auto
next
  case (Cons x xs)
  let ?more = "P x \<and> hi \<noteq> Some 0 \<and>
               rx_match (Cls P (lo - 1) (map_option (\<lambda>h. h - 1) hi) # r) (Some x) xs \<noteq> None"
  let ?stop = "lo = 0 \<and> rx_match r prev (x # xs) \<noteq> None"
  let ?R = "\<lambda>n. n \<le> length (x # xs) \<and> lo \<le> n \<and> (\<forall>h. hi = Some h \<longrightarrow> n \<le> h) \<and>
             list_all P (take n (x # xs)) \<and>
             rx_match r (if n = 0 then prev else Some ((x # xs) ! (n - 1))) (drop n (x # xs)) \<noteq> None"
  have lhs: "(rx_match (Cls P lo hi # r) prev (x # xs) \<noteq> None) = (?more \<or> ?stop)"
    by (auto split: option.splits)
  have stop: "?stop = ?R 0" by auto
  have more: "?more = (\<exists>m. ?R (Suc m))"
  proof -
    have "?more = (P x \<and> hi \<noteq> Some 0 \<and>
            (\<exists>m \<le> length xs. lo - 1 \<le> m \<and> (\<forall>h. map_option (\<lambda>h. h - 1) hi = Some h \<longrightarrow> m \<le> h) \<and>
               list_all P (take m xs) \<and>
               rx_match r (if m = 0 then Some x else Some (xs ! (m - 1))) (drop m xs) \<noteq> None))"
      by (simp only: Cons.IH)
    also have "\<dots> = (\<exists>m. ?R (Suc m))"
    proof (intro iffI)
      assume a: "P x \<and> hi \<noteq> Some 0 \<and>
            (\<exists>m \<le> length xs. lo - 1 \<le> m \<and> (\<forall>h. map_option (\<lambda>h. h - 1) hi = Some h \<longrightarrow> m \<le> h) \<and>
               list_all P (take m xs) \<and>
               rx_match r (if m = 0 then Some x else Some (xs ! (m - 1))) (drop m xs) \<noteq> None)"
      then obtain m where m: "m \<le> length xs" "lo - 1 \<le> m"
        "\<forall>h. map_option (\<lambda>h. h - 1) hi = Some h \<longrightarrow> m \<le> h" "list_all P (take m xs)"
        "rx_match r (if m = 0 then Some x else Some (xs ! (m - 1))) (drop m xs) \<noteq> None"
        by blast
      have "\<forall>h. hi = Some h \<longrightarrow> Suc m \<le> h"
      proof (intro allI impI)
        fix h assume h: "hi = Some h"
        with a have "h \<noteq> 0" by simp
        moreover from m(3) h have "m \<le> h - 1" by simp
        ultimately show "Suc m \<le> h" by simp
      qed
      moreover have "(if m = 0 then Some x else Some (xs ! (m - 1))) = Some ((x # xs) ! m)"
        by (cases m) auto
      ultimately have "?R (Suc m)" using a m by auto
      then show "\<exists>m. ?R (Suc m)" ..
    next
      assume "\<exists>m. ?R (Suc m)"
      then obtain m where R: "?R (Suc m)" ..
      have eq: "(if m = 0 then Some x else Some (xs ! (m - 1))) = Some ((x # xs) ! m)"
        by (cases m) auto
      have "hi \<noteq> Some 0" using R by auto
      moreover have "\<forall>h. map_option (\<lambda>h. h - 1) hi = Some h \<longrightarrow> m \<le> h"
        using R by (cases hi) auto
      moreover have "rx_match r (if m = 0 then Some x else Some (xs ! (m - 1))) (drop m xs) \<noteq> None"
        using R by (simp add: eq)
      ultimately show "P x \<and> hi \<noteq> Some 0 \<and>
            (\<exists>m \<le> length xs. lo - 1 \<le> m \<and> (\<forall>h. map_option (\<lambda>h. h - 1) hi = Some h \<longrightarrow> m \<le> h) \<and>
               list_all P (take m xs) \<and>
               rx_match r (if m = 0 then Some x else Some (xs ! (m - 1))) (drop m xs) \<noteq> None)"
        using R by (intro conjI exI [of _ m]) auto
    qed
    finally show ?thesis .
  qed
  have split: "(\<exists>n. Q n) = (Q 0 \<or> (\<exists>m. Q (Suc m)))" for Q :: "nat \<Rightarrow> bool"
    by (metis not0_implies_Suc)
  have "(rx_match (Cls P lo hi # r) prev (x # xs) \<noteq> None) = (?R 0 \<or> (\<exists>m. ?R (Suc m)))"
    by (simp only: lhs stop more disj_commute)
  also have "\<dots> = (\<exists>n. ?R n)" by (rule split [symmetric])
  finally show ?case by (simp only: conj_assoc)
qed


text \<open>A literal character, and the anchor \<open>$\<close> at the end of a pattern.\<close>

lemma chr_match_iff:
  "(rx_match (Chr c # r) prev s \<noteq> None) = (\<exists>xs. s = c # xs \<and> rx_match r (Some c) xs \<noteq> None)"
  by (cases s) auto

lemma eos_match_iff: "(rx_match [Eos] prev s \<noteq> None) = (s = [] \<or> s = [newline])"
  by simp

text \<open>What the \<open>localpart@provider\<close> pattern accepts: a local part of 2 to 256 and a provider
  of 2 to 128 characters among letters, digits, dot, hyphen and underscore, with an \<open>@\<close>
  between them, and possibly one newline at the very end.\<close>

lemma vpa_format_iff:
  "re_match VPA_FORMAT_RE s =
     (\<exists>l p t. s = l @ ''@'' @ p @ t \<and> (t = [] \<or> t = [newline]) \<and>
        list_all vpa_char l \<and> 2 \<le> length l \<and> length l \<le> 256 \<and>
        list_all vpa_char p \<and> 2 \<le> length p \<and> length p \<le> 128)"
  (is "?L = ?R")
proof
  assume ?L
  then have "\<exists>n. n \<le> length s \<and> 2 \<le> n \<and> n \<le> 256 \<and> list_all vpa_char (take n s) \<and>
      rx_match [Chr CHR ''@'', Cls vpa_char 2 (Some 128), Eos]
         (if n = 0 then None else Some (s ! (n - 1))) (drop n s) \<noteq> None"
    unfolding re_match_def VPA_FORMAT_RE_def cls_match_iff by blast
  then obtain n where n: "n \<le> length s" "2 \<le> n" "n \<le> 256" "list_all vpa_char (take n s)"
      "rx_match [Chr CHR ''@'', Cls vpa_char 2 (Some 128), Eos]
         (if n = 0 then None else Some (s ! (n - 1))) (drop n s) \<noteq> None"
    by blast
  from n(5) obtain xs where xs: "drop n s = CHR ''@'' # xs"
      "rx_match [Cls vpa_char 2 (Some 128), Eos] (Some CHR ''@'') xs \<noteq> None"
    unfolding chr_match_iff by auto
  from xs(2) have "\<exists>m. m \<le> length xs \<and> 2 \<le> m \<and> m \<le> 128 \<and> list_all vpa_char (take m xs) \<and>
      (drop m xs = [] \<or> drop m xs = [newline])"
    unfolding cls_match_iff eos_match_iff by blast
  then obtain m where m: "m \<le> length xs" "2 \<le> m" "m \<le> 128" "list_all vpa_char (take m xs)"
      "drop m xs = [] \<or> drop m xs = [newline]"
    by blast
  have "s = take n s @ ''@'' @ take m xs @ drop m xs"
    using xs(1) by (metis append_Cons append_Nil append_take_drop_id)
  moreover have "2 \<le> length (take n s)" "length (take n s) \<le> 256"
      "2 \<le> length (take m xs)" "length (take m xs) \<le> 128"
    using n(1,2,3) m(1,2,3) by simp_all
  ultimately show ?R using n(4) m(4,5) by blast
next
  assume ?R
  then obtain l p t where r: "s = l @ ''@'' @ p @ t" "t = [] \<or> t = [newline]"
      "list_all vpa_char l" "2 \<le> length l" "length l \<le> 256"
      "list_all vpa_char p" "2 \<le> length p" "length p \<le> 128"
    by blast
  have tail: "rx_match [Cls vpa_char 2 (Some 128), Eos] (Some CHR ''@'') (p @ t) \<noteq> None"
    unfolding cls_match_iff eos_match_iff
    using r by (intro exI [of _ "length p"]) auto
  have "rx_match [Chr CHR ''@'', Cls vpa_char 2 (Some 128), Eos]
          (if length l = 0 then None else Some (s ! (length l - 1))) (drop (length l) s) \<noteq> None"
    unfolding chr_match_iff using tail r(1) by simp
  then show ?L
    unfolding re_match_def VPA_FORMAT_RE_def cls_match_iff
    using r by (intro exI [of _ "length l"]) auto
qed

text \<open>A pattern that asks for an \<open>@\<close> after a character class matches no string without
  one.\<close>

lemma no_at_no_match:
  "CHR ''@'' \<notin> set s \<Longrightarrow> rx_match (Cls P lo hi # Chr CHR ''@'' # r) prev s = None"
  by (induction s arbitrary: lo hi prev) auto

lemma vpa_format_needs_at: "CHR ''@'' \<notin> set vpa \<Longrightarrow> \<not> re_match VPA_FORMAT_RE vpa"
  by (simp add: re_match_def VPA_FORMAT_RE_def no_at_no_match)

lemma lower_john_mixed: "lower ''John@OKSBI'' = ''john@oksbi''"
  by code_simp

lemma lower_john: "lower ''john@oksbi'' = ''john@oksbi''"
  by code_simp

section \<open>Facts about the offline world\<close>

lemma offline_fields:
  "url_netloc offline_world = urlparse_netloc"
  "stage1_ml offline_world u = ModelsUnavailable"
  "http_get offline_world u = HttpRequestException"
  "stage2_ml offline_world u c f = NoDynamicModel"
  "round2 offline_world = round2_decimal"
  by (simp_all add: offline_world_def)


lemma phish_not_trusted: "\<not> is_trusted_domain offline_world ''https://login-verify.com/secure''"
  by code_simp

lemma phish_blacklisted:
  "check_domain_blacklist offline_world ''https://login-verify.com/secure'' =
     Inr (PatternHit (''.*-verify.*'' @ bs @ ''.com$''))"
  by code_simp

lemma phish_stage1:
  "u_verdict (validate_url offline_world ''https://login-verify.com/secure'') = ''BLOCK'' \<and>
   u_score (validate_url offline_world ''https://login-verify.com/secure'') = 1"
  by (simp add: validate_url_def phish_not_trusted phish_blacklisted is_blacklisted_def)

lemma phish_stage2:
  "s2_success (validate_url_stage2 offline_world ''https://login-verify.com/secure'')"
  "s2_verdict (validate_url_stage2 offline_world ''https://login-verify.com/secure'') = ''WARN''"
  "s2_score (validate_url_stage2 offline_world ''https://login-verify.com/secure'') = 0.5"
  by code_simp+

lemma phish_link:
  "final_verdict (validate_link offline_world ''https://login-verify.com/secure'') = ''BLOCK''"
  by (simp add: validate_link_def validate_link_with_def run_stage2_def Let_def phish_stage1
        phish_stage2)

text \<open>A trusted link, \<open>https://www.google.com/search\<close>.\<close>

lemma google_trusted: "is_trusted_domain offline_world ''https://www.google.com/search''"
  by code_simp

lemma google_stage1:
  "u_verdict (validate_url offline_world ''https://www.google.com/search'') = ''OK'' \<and>
   u_score (validate_url offline_world ''https://www.google.com/search'') = 0"
  by (simp add: validate_url_def google_trusted)

section \<open>The link path: how the two stages combine\<close>

text \<open>
  Claim C1. For every URL on the orchestrator's link path: when the Stage 2 validator ran
  and reported success, the returned \<open>risk_score\<close> is the maximum of the two stage scores and
  the final verdict is \<open>BLOCK\<close> if either stage says \<open>BLOCK\<close>, else \<open>WARN\<close> if either says \<open>WARN\<close>,
  else \<open>OK\<close>; when Stage 2 did not run (Stage 1 said neither \<open>WARN\<close> nor \<open>BLOCK\<close>, or the Stage 2
  call raised) or did not report success, the final verdict and score are Stage 1's. The
  statement is about \<open>validate_link\<close> for any two stage validators, \<open>r1\<close> being what Stage 1
  returned.
\<close>

theorem validate_link_aggregation:
  assumes "ml_validate url = Inr r1"
  shows "(u_verdict r1 \<in> {''WARN'', ''BLOCK''} \<and> stage2 url = Inr r2 \<and> s2_success r2 \<longrightarrow>
            risk_score (validate_link_with ml_validate stage2 url) = max (u_score r1) (s2_score r2) \<and>
            final_verdict (validate_link_with ml_validate stage2 url) =
              (if u_verdict r1 = ''BLOCK'' \<or> s2_verdict r2 = ''BLOCK'' then ''BLOCK''
               else if u_verdict r1 = ''WARN'' \<or> s2_verdict r2 = ''WARN'' then ''WARN''
               else ''OK'')) \<and>
         (u_verdict r1 \<notin> {''WARN'', ''BLOCK''} \<or> (\<exists>e. stage2 url = Inl e) \<or>
          (\<exists>r. stage2 url = Inr r \<and> \<not> s2_success r) \<longrightarrow>
            final_verdict (validate_link_with ml_validate stage2 url) = u_verdict r1 \<and>
            risk_score (validate_link_with ml_validate stage2 url) = u_score r1)"
  using assms by (auto simp add: validate_link_with_def run_stage2_def Let_def)

text \<open>The theorem on the repository's own validators in the offline world: the phishing link
  (Stage 1 \<open>BLOCK\<close> 1.0, Stage 2 success with \<open>WARN\<close> 0.5) ends \<open>BLOCK\<close> with 1.0; the trusted
  link (Stage 1 \<open>OK\<close>, no Stage 2) ends \<open>OK\<close> with 0.\<close>

theorem validate_link_aggregation_witness:
  "u_verdict (validate_url offline_world ''https://login-verify.com/secure'') = ''BLOCK'' \<and>
   s2_success (validate_url_stage2 offline_world ''https://login-verify.com/secure'') \<and>
   risk_score (validate_link offline_world ''https://login-verify.com/secure'') = 1 \<and>
   final_verdict (validate_link offline_world ''https://login-verify.com/secure'') = ''BLOCK'' \<and>
   u_verdict (validate_url offline_world ''https://www.google.com/search'') = ''OK'' \<and>
   risk_score (validate_link offline_world ''https://www.google.com/search'') = 0 \<and>
   final_verdict (validate_link offline_world ''https://www.google.com/search'') = ''OK''"
  using validate_link_aggregation
          [of "\<lambda>u. Inr (validate_url offline_world u)" "''https://login-verify.com/secure''"
              "validate_url offline_world ''https://login-verify.com/secure''"
              "\<lambda>u. Inr (validate_url_stage2 offline_world u)"
              "validate_url_stage2 offline_world ''https://login-verify.com/secure''"]
        validate_link_aggregation
          [of "\<lambda>u. Inr (validate_url offline_world u)" "''https://www.google.com/search''"
              "validate_url offline_world ''https://www.google.com/search''"
              "\<lambda>u. Inr (validate_url_stage2 offline_world u)"
              "validate_url_stage2 offline_world ''https://www.google.com/search''"]
  by (simp add: validate_link_def phish_stage1 phish_stage2 google_stage1)

section \<open>Dispatch: exceptions and the cache\<close>

lemma has_key_dict_set: "has_key (dict_set d k v) k' = (k' = k \<or> has_key d k')"
  by (induction d k v rule: dict_set.induct) (auto simp: has_key_def)

lemma dict_set_nonempty: "dict_set d k v \<noteq> []"
  by (cases d) (auto split: if_splits)

text \<open>
  Claim C2. For every call to \<open>validate_input\<close>: if the dispatched path handler raises, the
  returned value is exactly \<open>{error: <the exception's text>}\<close>, with no other field; and a
  result is stored in the in-process cache if and only if it has no \<open>error\<close> key, so error
  results are never cached. \<open>looked\<close> is the cache lookup of the call: a handler is dispatched
  when it finds nothing (or an empty dictionary). Then an exception gives the bare error
  dictionary and leaves the cache as the lookup left it; a returned result is stamped with
  \<open>cached\<close> and \<open>response_time_ms\<close>, and the cache afterwards holds it under the key exactly
  when it has no \<open>error\<close> key. On a hit nothing is stored.
\<close>

theorem validate_input_errors_and_cache:
  assumes key: "cache_key = get_cache_key d input_type val file_data"
      and looked: "looked = get_from_cache c (t_lookup clk) cache_key"
      and ms: "ms = PInt (py_int ((t_end clk - t_start clk) * 1000))"
  shows "(fst looked = None \<or> fst looked = Some [] \<longrightarrow>
            (run_handler d input_type val file_data = Inl e \<longrightarrow>
               validate_input d clk c input_type val file_data = ([(''error'', PStr e)], snd looked)) \<and>
            (run_handler d input_type val file_data = Inr result0 \<longrightarrow>
               (let out = validate_input d clk c input_type val file_data in
                fst out = dict_set (dict_set result0 ''cached'' (PBool False)) ''response_time_ms'' ms \<and>
                has_key (fst out) ''error'' = has_key result0 ''error'' \<and>
                snd out = (if has_key (fst out) ''error'' then snd looked
                           else (snd looked)(cache_key \<mapsto> (fst out, t_save clk))) \<and>
                (snd out cache_key = Some (fst out, t_save clk)) = (\<not> has_key (fst out) ''error'')))) \<and>
         (fst looked = Some cached \<and> cached \<noteq> [] \<longrightarrow>
            validate_input d clk c input_type val file_data =
              (dict_set (dict_set cached ''cached'' (PBool True)) ''response_time_ms'' ms, c))"
proof (intro conjI impI)
  assume hit: "fst looked = Some cached \<and> cached \<noteq> []"
  then have "snd looked = c"
    unfolding looked
    by (auto simp add: get_from_cache_def split: option.splits prod.splits if_splits)
  with hit show "validate_input d clk c input_type val file_data =
      (dict_set (dict_set cached ''cached'' (PBool True)) ''response_time_ms'' ms, c)"
    by (simp add: validate_input_def Let_def key [symmetric] looked [symmetric] ms)
next
  assume miss: "fst looked = None \<or> fst looked = Some []"
  have v: "validate_input d clk c input_type val file_data =
           on_miss d clk (snd looked) cache_key input_type val file_data"
    using miss by (auto simp add: validate_input_def Let_def key [symmetric] looked [symmetric])
  {
    assume "run_handler d input_type val file_data = Inl e"
    then show "validate_input d clk c input_type val file_data = ([(''error'', PStr e)], snd looked)"
      by (simp add: v on_miss_def)
  }
  {
    assume r: "run_handler d input_type val file_data = Inr result0"
    let ?res = "dict_set (dict_set result0 ''cached'' (PBool False)) ''response_time_ms'' ms"
    have c1k: "snd looked cache_key = None \<or> (\<exists>t. snd looked cache_key = Some ([], t))"
      using miss unfolding looked
      by (auto simp add: get_from_cache_def split: option.splits prod.splits if_splits)
    have ne: "?res \<noteq> []" by (rule dict_set_nonempty)
    have hk: "has_key ?res ''error'' = has_key result0 ''error''"
      by (simp add: has_key_dict_set)
    have out: "validate_input d clk c input_type val file_data =
               (?res, if has_key ?res ''error'' then snd looked
                      else (snd looked)(cache_key \<mapsto> (?res, t_save clk)))"
      by (simp add: v on_miss_def r Let_def save_to_cache_def ms)
    show "let out = validate_input d clk c input_type val file_data in
             fst out = ?res \<and>
             has_key (fst out) ''error'' = has_key result0 ''error'' \<and>
             snd out = (if has_key (fst out) ''error'' then snd looked
                        else (snd looked)(cache_key \<mapsto> (fst out, t_save clk))) \<and>
             (snd out cache_key = Some (fst out, t_save clk)) = (\<not> has_key (fst out) ''error'')"
      using c1k ne hk by (auto simp add: out Let_def)
  }
qed

lemma demo_handlers:
  "run_handler demo_dispatch ''vpa'' v f = Inl ''boom''"
  "run_handler demo_dispatch ''link'' v f = Inr [(''final_verdict'', PStr ''OK'')]"
  "run_handler demo_dispatch ''message'' v f =
     Inr [(''error'', PStr ''bad''), (''verdict'', PStr ''WARN'')]"
  by (simp_all add: run_handler_def demo_dispatch_def)

lemma demo_keys:
  "get_cache_key demo_dispatch ty (Some v) None = ty @ '':'' @ v"
  by (simp add: get_cache_key_def demo_dispatch_def py_str_opt_def)

lemma demo_ms: "py_int ((t_end demo_clock - t_start demo_clock) * 1000) = 250"
  by (simp add: demo_clock_def py_int_def)

text \<open>Three calls on an empty cache: the VPA handler raises, and the bare error dictionary
  comes back with nothing stored; the link result is stamped and stored; the message result
  carries an \<open>error\<close> key and is not stored.\<close>

theorem validate_input_witness:
  "validate_input demo_dispatch demo_clock Map.empty ''vpa'' (Some ''a@oksbi'') None =
     ([(''error'', PStr ''boom'')], Map.empty) \<and>
   validate_input demo_dispatch demo_clock Map.empty ''link'' (Some ''https://x.org/'') None =
     ([(''final_verdict'', PStr ''OK''), (''cached'', PBool False), (''response_time_ms'', PInt 250)],
      [''link:https://x.org/'' \<mapsto>
         ([(''final_verdict'', PStr ''OK''), (''cached'', PBool False), (''response_time_ms'', PInt 250)],
          101)]) \<and>
   snd (validate_input demo_dispatch demo_clock Map.empty ''message'' (Some ''hi'') None) = Map.empty"
proof -
  have look: "(None, Map.empty) = get_from_cache Map.empty (t_lookup demo_clock) k" for k
    by (simp add: get_from_cache_def)
  have ms: "PInt 250 = PInt (py_int ((t_end demo_clock - t_start demo_clock) * 1000))"
    by (simp only: demo_ms)
  have a: "validate_input demo_dispatch demo_clock Map.empty ''vpa'' (Some ''a@oksbi'') None =
             ([(''error'', PStr ''boom'')], Map.empty)"
    using validate_input_errors_and_cache
            [OF demo_keys [of "''vpa''" "''a@oksbi''", symmetric] look ms,
             where e = "''boom''" and ?result0.0 = "[]" and cached = "[]"]
    by (simp add: demo_handlers)
  have b: "validate_input demo_dispatch demo_clock Map.empty ''link'' (Some ''https://x.org/'') None =
     ([(''final_verdict'', PStr ''OK''), (''cached'', PBool False), (''response_time_ms'', PInt 250)],
      [''link:https://x.org/'' \<mapsto>
         ([(''final_verdict'', PStr ''OK''), (''cached'', PBool False), (''response_time_ms'', PInt 250)],
          101)])"
    using validate_input_errors_and_cache
            [OF demo_keys [of "''link''" "''https://x.org/''", symmetric] look ms,
             where e = "[]" and ?result0.0 = "[(''final_verdict'', PStr ''OK'')]" and cached = "[]"]
    by (simp add: demo_handlers Let_def has_key_def prod_eq_iff demo_clock_def)
  have c: "snd (validate_input demo_dispatch demo_clock Map.empty ''message'' (Some ''hi'') None)
             = Map.empty"
    using validate_input_errors_and_cache
            [OF demo_keys [of "''message''" "''hi''", symmetric] look ms,
             where e = "[]" and cached = "[]"
               and ?result0.0 = "[(''error'', PStr ''bad''), (''verdict'', PStr ''WARN'')]"]
    by (simp add: demo_handlers Let_def has_key_def)
  from a b c show ?thesis by simp
qed

section \<open>The link validator: the allowlist\<close>

text \<open>What the allowlist check does give: when the netloc, lower-cased and with every
  \<open>www.\<close> removed, is an allowlist entry or ends with a dot and an entry, \<open>validate_url\<close>
  returns \<open>OK\<close> with score 0, whatever the models are.\<close>

lemma trusted_domain_whitelisted:
  assumes "url_netloc w url = Inr n"
      and "t \<in> set TRUSTED_DOMAINS"
      and "str_remove ''www.'' (lower n) = t \<or> endswith (str_remove ''www.'' (lower n)) (''.'' @ t)"
  shows "u_verdict (validate_url w url) = ''OK'' \<and> u_score (validate_url w url) = 0"
proof -
  from assms have "is_trusted_domain w url"
    by (auto simp add: is_trusted_domain_def Let_def list_ex_iff)
  then show ?thesis by (simp add: validate_url_def)
qed

lemma awww_netloc: "url_netloc offline_world ''https://awww.google.com/'' = Inr ''awww.google.com''"
  by code_simp

lemma awww_subdomain:
  "''google.com'' \<in> set TRUSTED_DOMAINS \<and> endswith ''awww.google.com'' (''.'' @ ''google.com'')"
  by code_simp

lemma awww_removed: "str_remove ''www.'' (lower ''awww.google.com'') = ''agoogle.com''"
  by code_simp

lemma awww_not_trusted: "\<not> is_trusted_domain offline_world ''https://awww.google.com/''"
  by code_simp

lemma awww_not_blacklisted:
  "check_domain_blacklist offline_world ''https://awww.google.com/'' = Inr NotBlacklisted"
  by code_simp

text \<open>
  Claim C3 says that every URL whose host, lower-cased and with a leading \<open>www.\<close> stripped, is
  an allowlist entry or a dot-suffix subdomain of one gets \<open>OK\<close> with score 0.0, whatever the
  model availability. The code at \<open>https://awww.google.com/\<close>: the host \<open>awww.google.com\<close>
  has no leading \<open>www.\<close> and ends with \<open>.google.com\<close>, an entry; \<open>is_trusted_domain\<close> removes
  the \<open>www.\<close> inside it (\<open>replace\<close> removes every occurrence, not a leading one), tests
  \<open>agoogle.com\<close>, and answers \<open>False\<close>; with no model artifacts \<open>validate_url\<close> returns \<open>WARN\<close>
  with 0.5.
\<close>

theorem trusted_subdomain_not_whitelisted:
  "url_netloc offline_world ''https://awww.google.com/'' = Inr ''awww.google.com'' \<and>
   ''google.com'' \<in> set TRUSTED_DOMAINS \<and>
   endswith ''awww.google.com'' (''.'' @ ''google.com'') \<and>
   str_remove ''www.'' (lower ''awww.google.com'') = ''agoogle.com'' \<and>
   is_trusted_domain offline_world ''https://awww.google.com/'' = False \<and>
   u_verdict (validate_url offline_world ''https://awww.google.com/'') = ''WARN'' \<and>
   u_score (validate_url offline_world ''https://awww.google.com/'') = 0.5"
  using awww_netloc awww_subdomain awww_removed awww_not_trusted
  by (simp add: validate_url_def awww_not_blacklisted is_blacklisted_def offline_fields)

text \<open>The check reads the netloc, not the host: with a port, the trusted host
  \<open>www.google.com\<close> is not recognised either.\<close>

lemma port_not_trusted:
  "url_netloc offline_world ''https://www.google.com:443/search'' = Inr ''www.google.com:443'' \<and>
   is_trusted_domain offline_world ''https://www.google.com:443/search'' = False"
  by code_simp

section \<open>The link validator: the phishing patterns\<close>






text \<open>On the URLs left out. With a port the network location is \<open>upi-pay.com:443\<close>: the host
  matches \<open>upi-.*\.com$\<close>, the network location matches no pattern and holds no keyword, and
  with no model artifacts the result is \<open>WARN\<close> with 0.5. With credentials the network
  location is \<open>x-verify@evil.com\<close>: the host \<open>evil.com\<close> matches no pattern, the network
  location does, and the result is \<open>BLOCK\<close>.\<close>

lemma port_url:
  "url_netloc offline_world ''https://upi-pay.com:443/'' = Inr ''upi-pay.com:443''"
  "list_ex (\<lambda>(pat, rx). re_match rx ''upi-pay.com'') PHISHING_PATTERNS"
  "\<not> is_trusted_domain offline_world ''https://upi-pay.com:443/''"
  "check_domain_blacklist offline_world ''https://upi-pay.com:443/'' = Inr NotBlacklisted"
  by code_simp+

lemma port_bypasses_patterns:
  "u_verdict (validate_url offline_world ''https://upi-pay.com:443/'') = ''WARN'' \<and>
   u_score (validate_url offline_world ''https://upi-pay.com:443/'') = 0.5"
  by (simp add: validate_url_def port_url is_blacklisted_def offline_fields)

lemma credentials_url:
  "url_netloc offline_world ''https://x-verify@evil.com/'' = Inr ''x-verify@evil.com''"
  "\<not> list_ex (\<lambda>(pat, rx). re_match rx ''evil.com'') PHISHING_PATTERNS"
  "\<not> is_trusted_domain offline_world ''https://x-verify@evil.com/''"
  "check_domain_blacklist offline_world ''https://x-verify@evil.com/'' =
     Inr (PatternHit (''.*-verify.*'' @ bs @ ''.com$''))"
  by code_simp+

lemma credentials_match_patterns:
  "u_verdict (validate_url offline_world ''https://x-verify@evil.com/'') = ''BLOCK''"
  by (simp add: validate_url_def credentials_url is_blacklisted_def)

section \<open>The message path: a blocked URL\<close>

lemma url_step_mono: "fst st \<le> fst (url_step w u st)"
  by (simp add: url_step_def Let_def)

lemma url_step_block:
  "final_verdict (validate_link w (rstrip ''.,;:)]}'' u)) = ''BLOCK'' \<Longrightarrow>
   fst st + 0.5 \<le> fst (url_step w u st)"
  by (simp add: url_step_def Let_def)

lemma url_loop_mono: "fst st \<le> fst (url_loop w urls st)"
proof (induction urls arbitrary: st)
  case Nil
  then show ?case by simp
next
  case (Cons u urls)
  have "fst st \<le> fst (url_step w u st)" by (rule url_step_mono)
  also have "\<dots> \<le> fst (url_loop w urls (url_step w u st))" by (rule Cons.IH)
  finally show ?case by simp
qed

text \<open>One blocked URL in the loop raises the risk by at least 0.5.\<close>

lemma url_loop_block:
  "\<exists>u \<in> set urls. final_verdict (validate_link w (rstrip ''.,;:)]}'' u)) = ''BLOCK'' \<Longrightarrow>
   fst st + 0.5 \<le> fst (url_loop w urls st)"
proof (induction urls arbitrary: st)
  case Nil
  then show ?case by simp
next
  case (Cons u urls)
  show ?case
  proof (cases "final_verdict (validate_link w (rstrip ''.,;:)]}'' u)) = ''BLOCK''")
    case True
    then have "fst st + 0.5 \<le> fst (url_step w u st)" by (rule url_step_block)
    also have "\<dots> \<le> fst (url_loop w urls (url_step w u st))" by (rule url_loop_mono)
    finally show ?thesis by simp
  next
    case False
    with Cons.prems
    have "\<exists>u \<in> set urls. final_verdict (validate_link w (rstrip ''.,;:)]}'' u)) = ''BLOCK''"
      by auto
    then have "fst (url_step w u st) + 0.5 \<le> fst (url_loop w urls (url_step w u st))"
      by (rule Cons.IH)
    moreover have "fst st \<le> fst (url_step w u st)" by (rule url_step_mono)
    ultimately show ?thesis by simp
  qed
qed

text \<open>
  Claim C5. For every message in which at least one extracted URL (a match of
  \<open>https?://[^\s]+\<close>, its trailing punctuation stripped) gets the verdict \<open>BLOCK\<close> from the link
  path, the message path returns the verdict \<open>WARN\<close> or \<open>BLOCK\<close>, never \<open>OK\<close>.
\<close>

theorem blocked_url_never_ok:
  assumes "\<exists>u \<in> set (findall URL_RE None message).
             final_verdict (validate_link w (rstrip ''.,;:)]}'' u)) = ''BLOCK''"
  shows "m_verdict (validate_message w message) = ''WARN'' \<or>
         m_verdict (validate_message w message) = ''BLOCK''"
proof -
  let ?found = "filter (\<lambda>kw. contains kw (lower message)) suspicious_keywords"
  let ?st0 = "(if ?found \<noteq> []
                 then (0.15 * real (length ?found),
                       [''Suspicious keywords: '' @ join '', '' (take 3 ?found)], [])
                 else (0, [], [])) :: msg_state"
  have "0 \<le> fst ?st0" by simp
  moreover have "fst ?st0 + 0.5 \<le> fst (url_loop w (findall URL_RE None message) ?st0)"
    using assms by (rule url_loop_block)
  ultimately have "0.5 \<le> fst (url_loop w (findall URL_RE None message) ?st0)" by linarith
  then show ?thesis
    by (simp add: validate_message_def Let_def)
qed

lemma demo_message_blocked:
  "\<exists>u \<in> set (findall URL_RE None ''URGENT: verify your KYC at https://login-verify.com/secure.'').
     final_verdict (validate_link offline_world (rstrip ''.,;:)]}'' u)) = ''BLOCK''"
proof -
  have "findall URL_RE None ''URGENT: verify your KYC at https://login-verify.com/secure.'' =
          [''https://login-verify.com/secure.'']"
    by code_simp
  moreover have "rstrip ''.,;:)]}'' ''https://login-verify.com/secure.'' =
                   ''https://login-verify.com/secure''"
    by code_simp
  ultimately show ?thesis by (simp add: phish_link)
qed

theorem blocked_url_never_ok_witness:
  "(\<exists>u \<in> set (findall URL_RE None ''URGENT: verify your KYC at https://login-verify.com/secure.'').
     final_verdict (validate_link offline_world (rstrip ''.,;:)]}'' u)) = ''BLOCK'') \<and>
   (m_verdict (validate_message offline_world
      ''URGENT: verify your KYC at https://login-verify.com/secure.'') = ''WARN'' \<or>
    m_verdict (validate_message offline_world
      ''URGENT: verify your KYC at https://login-verify.com/secure.'') = ''BLOCK'')"
  using blocked_url_never_ok [OF demo_message_blocked] demo_message_blocked by simp

section \<open>The QR path: which score a URL code reports\<close>

text \<open>The scanner's trusted-domain test implies the link validator's: the two lists are the
  same, and a domain that the scanner accepts after stripping one leading \<open>www.\<close> ends with
  a dot and the same entry.\<close>

lemma s2_trusted_same_list: "S2_TRUSTED_DOMAINS = TRUSTED_DOMAINS"
  by (simp add: S2_TRUSTED_DOMAINS_def TRUSTED_DOMAINS_def)

lemma s2_trusted_implies_trusted:
  assumes "s2_is_trusted_domain d" and "lower d = d"
  shows "d \<in> set TRUSTED_DOMAINS \<or>
         list_ex (\<lambda>trusted. endswith d (''.'' @ trusted) \<or> d = trusted) TRUSTED_DOMAINS"
proof (cases "startswith d ''www.''")
  case False
  with assms show ?thesis
    by (simp add: s2_is_trusted_domain_def Let_def s2_trusted_same_list)
next
  case True
  then have d: "d = ''www.'' @ drop 4 d"
    using startswith_split [of d "''www.''"] by (simp add: eval_nat_numeral)
  from assms True have
    "drop 4 d \<in> set TRUSTED_DOMAINS \<or>
     list_ex (\<lambda>trusted. endswith (drop 4 d) (''.'' @ trusted) \<or> drop 4 d = trusted) TRUSTED_DOMAINS"
    by (simp add: s2_is_trusted_domain_def Let_def s2_trusted_same_list)
  then obtain t where t: "t \<in> set TRUSTED_DOMAINS" "endswith (drop 4 d) (''.'' @ t) \<or> drop 4 d = t"
    by (auto simp add: list_ex_iff)
  have "endswith d (''.'' @ t)"
  proof -
    from t(2) show ?thesis
    proof
      assume "endswith (drop 4 d) (''.'' @ t)"
      then obtain xs where "drop 4 d = xs @ ''.'' @ t" by (auto simp add: endswith_iff)
      with d have "d = (''www.'' @ xs) @ ''.'' @ t" by simp
      then show ?thesis unfolding endswith_iff by blast
    next
      assume "drop 4 d = t"
      with d have "d = ''www'' @ ''.'' @ t" by simp
      then show ?thesis unfolding endswith_iff by blast
    qed
  qed
  with t(1) show ?thesis by (auto simp add: list_ex_iff)
qed

lemma s2_trusted_gives_stage1_trusted:
  assumes "url_netloc w url = Inr n" and "s2_is_trusted_domain (str_remove ''www.'' (lower n))"
  shows "is_trusted_domain w url"
  using assms s2_trusted_implies_trusted [OF assms(2) lower_str_remove_lower]
  by (simp add: is_trusted_domain_def Let_def)

text \<open>Every return of the scanner but the trusted-domain one is an \<open>untrusted_scan\<close>.\<close>

lemma flag_flags_dict_trusted: "flag (flags_dict f) ''trusted_domain'' = trusted_domain f"
  by (simp add: flag_def flags_dict_def)

lemma domain_rules_untrusted: "\<not> trusted_domain (fst (domain_rules d))"
  by (simp add: domain_rules_def Let_def initial_flags_def)

lemma inspect_content_trusted: "trusted_domain (fst (inspect_content c fr)) = trusted_domain (fst fr)"
  by (simp add: inspect_content_def Let_def)

lemma finish_scan_untrusted:
  "\<not> trusted_domain (fst fr) \<Longrightarrow> untrusted_scan (finish_scan w url b c fr)"
  by (simp add: finish_scan_def Let_def untrusted_scan_def flag_flags_dict_trusted)

lemma scan_exception_untrusted: "untrusted_scan (scan_exception url e)"
  by (simp add: scan_exception_def untrusted_scan_def flag_def)

lemma scan_untrusted:
  assumes "\<not> (\<exists>n. url_netloc w url = Inr n \<and> s2_is_trusted_domain (str_remove ''www.'' (lower n)))"
  shows "untrusted_scan (scan_url_headless w url)"
proof (cases "url_netloc w url")
  case (Inl e)
  then show ?thesis by (simp add: scan_url_headless_def scan_exception_untrusted)
next
  case (Inr n)
  with assms have nt: "\<not> s2_is_trusted_domain (str_remove ''www.'' (lower n))" by simp
  let ?d = "str_remove ''www.'' (lower n)"
  show ?thesis
  proof (cases "http_get w url")
    case (HttpResponse content final_url)
    show ?thesis
    proof (cases "url_netloc w final_url")
      case (Inl e)
      then show ?thesis
        using Inr nt HttpResponse
        by (simp add: scan_url_headless_def Let_def scan_exception_untrusted)
    next
      case rn: (Inr rn)
      have a: "untrusted_scan (finish_scan w url (is_likely_bank_domain ?d) content
                 (inspect_content content fr))" if "\<not> trusted_domain (fst fr)" for fr
        using that by (simp add: finish_scan_untrusted inspect_content_trusted)
      show ?thesis
        using Inr nt HttpResponse rn a domain_rules_untrusted [of ?d]
        by (simp add: scan_url_headless_def Let_def untrusted_scan_def flag_def)
    qed
  next
    case HttpRequestException
    then show ?thesis
      using Inr nt domain_rules_untrusted [of ?d]
      by (simp add: scan_url_headless_def Let_def finish_scan_untrusted)
  next
    case (HttpOtherException e)
    then show ?thesis
      using Inr nt by (simp add: scan_url_headless_def Let_def scan_exception_untrusted)
  qed
qed

text \<open>On such a scan result the Stage 2 validator reports the score 0.5: it reads the key
  \<open>risk_score\<close>, which only the trusted-domain return sets. Its \<open>except\<close> reports 0.5 too.\<close>

lemma stage2_score_of_untrusted:
  "untrusted_scan (scan_url_headless w url) \<Longrightarrow> s2_score (validate_url_stage2 w url) = 0.5"
  by (simp add: validate_url_stage2_def stage2_error_def Let_def untrusted_scan_def
        split: option.splits)

lemma stage2_zero_score_trusted:
  assumes "s2_score (validate_url_stage2 w url) = 0"
  shows "is_trusted_domain w url"
proof (rule ccontr)
  assume nt: "\<not> is_trusted_domain w url"
  have "\<not> (\<exists>n. url_netloc w url = Inr n \<and> s2_is_trusted_domain (str_remove ''www.'' (lower n)))"
    using nt s2_trusted_gives_stage1_trusted by blast
  then have "s2_score (validate_url_stage2 w url) = 0.5"
    by (intro stage2_score_of_untrusted scan_untrusted)
  with assms show False by simp
qed

lemma trusted_verdict_ok: "is_trusted_domain w url \<Longrightarrow> u_verdict (validate_url w url) = ''OK''"
  by (simp add: validate_url_def)

text \<open>A Stage 2 sub-result of the link path never has the score 0: Stage 2 gives 0 only to a
  domain it trusts, Stage 1 trusts that domain too and says \<open>OK\<close>, and then Stage 2 does not
  run.\<close>

lemma link_stage2_score_nonzero:
  assumes "l_stage2 (validate_link w url) = Some r2"
  shows "s2_score r2 \<noteq> 0"
proof
  assume z: "s2_score r2 = 0"
  from assms have run: "u_verdict (validate_url w url) \<in> set [''WARN'', ''BLOCK'']"
    and sc: "s2_score r2 = s2_score (validate_url_stage2 w url)"
    by (auto simp add: validate_link_def validate_link_with_def run_stage2_def Let_def
             split: if_splits)
  from z sc have "is_trusted_domain w url" by (simp add: stage2_zero_score_trusted)
  then have "u_verdict (validate_url w url) = ''OK''" by (rule trusted_verdict_ok)
  with run show False by simp
qed

lemma link_stage1_present:
  "l_stage1 (validate_link w url) =
     Some \<lparr>st1_verdict = u_verdict (validate_url w url), st1_score = u_score (validate_url w url),
           st1_reasons = u_reasons (validate_url w url)\<rparr>"
  by (simp add: validate_link_def validate_link_with_def Let_def)

lemma empty_payload_not_url: "identify_qr_content_type [] \<noteq> ''url''"
  by code_simp

text \<open>
  Claim C6. For every QR image whose decoded payload classifies as type \<open>url\<close>, the QR path
  reports a \<open>risk_score\<close> equal to the Stage 2 sub-result's score whenever a Stage 2
  sub-result is present, and otherwise equal to the Stage 1 score. The source computes
  \<open>(stage2.get("score") if stage2 else None) or stage1.get("score", 0)\<close>, which would pass over
  a Stage 2 score of 0; on the link path that score does not occur
  (\<open>link_stage2_score_nonzero\<close>).
\<close>

theorem qr_url_score_prefers_stage2:
  assumes "decode_qr w file_data = Some data"
      and "identify_qr_content_type data = ''url''"
  shows "\<exists>res. validate_qr w file_data = Inr res \<and>
           q_stage2 res = l_stage2 (validate_link w data) \<and>
           q_risk_score res =
             (case q_stage2 res of
                Some r2 \<Rightarrow> s2_score r2
              | None \<Rightarrow> u_score (validate_url w data))"
proof -
  from assms(2) have "data \<noteq> []" using empty_payload_not_url by auto
  then have p: "parse_qr_image w file_data = Inr \<lparr>p_type = ''url'', p_data = data, p_vpa = None\<rparr>"
    using assms by (simp add: parse_qr_image_def Let_def)
  have "qr_url_risk_score (l_stage1 (validate_link w data)) (l_stage2 (validate_link w data)) =
        (case l_stage2 (validate_link w data) of
           Some r2 \<Rightarrow> s2_score r2
         | None \<Rightarrow> u_score (validate_url w data))"
    using link_stage2_score_nonzero [of w data]
    by (cases "l_stage2 (validate_link w data)")
       (simp_all add: qr_url_risk_score_def link_stage1_present)
  then show ?thesis
    by (simp add: validate_qr_def p Let_def)
qed

lemma qr_world_fields:
  "decode_qr qr_world f = Some ''https://login-verify.com/secure''"
  "url_netloc qr_world = urlparse_netloc"
  "stage1_ml qr_world u = ModelsUnavailable"
  by (simp_all add: qr_world_def offline_world_def)

lemma qr_phish_stage1:
  "u_verdict (validate_url qr_world ''https://login-verify.com/secure'') = ''BLOCK'' \<and>
   u_score (validate_url qr_world ''https://login-verify.com/secure'') = 1"
proof -
  have "\<not> is_trusted_domain qr_world ''https://login-verify.com/secure''" by code_simp
  moreover have "check_domain_blacklist qr_world ''https://login-verify.com/secure'' =
                   Inr (PatternHit (''.*-verify.*'' @ bs @ ''.com$''))" by code_simp
  ultimately show ?thesis by (simp add: validate_url_def is_blacklisted_def)
qed

lemma qr_phish_stage2:
  "s2_success (validate_url_stage2 qr_world ''https://login-verify.com/secure'')"
  "s2_score (validate_url_stage2 qr_world ''https://login-verify.com/secure'') = 0.5"
  by code_simp+

lemma qr_phish_link:
  "\<exists>r2. l_stage2 (validate_link qr_world ''https://login-verify.com/secure'') = Some r2 \<and>
        s2_score r2 = 0.5"
  by (simp add: validate_link_def validate_link_with_def run_stage2_def Let_def qr_phish_stage1
        qr_phish_stage2)

text \<open>A QR code holding the phishing link: Stage 1 scores 1.0, Stage 2 is present with 0.5,
  and the QR path reports 0.5.\<close>

theorem qr_url_score_witness:
  "decode_qr qr_world ''(image bytes)'' = Some ''https://login-verify.com/secure'' \<and>
   identify_qr_content_type ''https://login-verify.com/secure'' = ''url'' \<and>
   u_score (validate_url qr_world ''https://login-verify.com/secure'') = 1 \<and>
   (\<exists>res r2. validate_qr qr_world ''(image bytes)'' = Inr res \<and>
          q_stage2 res = Some r2 \<and> s2_score r2 = 0.5 \<and> q_risk_score res = 0.5)"
proof -
  have d: "decode_qr qr_world ''(image bytes)'' = Some ''https://login-verify.com/secure''"
    by (rule qr_world_fields)
  have i: "identify_qr_content_type ''https://login-verify.com/secure'' = ''url''"
    by code_simp
  from qr_url_score_prefers_stage2 [OF d i] obtain res where
    res: "validate_qr qr_world ''(image bytes)'' = Inr res"
      "q_stage2 res = l_stage2 (validate_link qr_world ''https://login-verify.com/secure'')"
      "q_risk_score res =
         (case q_stage2 res of
            Some r2 \<Rightarrow> s2_score r2
          | None \<Rightarrow> u_score (validate_url qr_world ''https://login-verify.com/secure''))"
    by blast
  from qr_phish_link obtain r2 where
    r2: "l_stage2 (validate_link qr_world ''https://login-verify.com/secure'') = Some r2"
      "s2_score r2 = 0.5"
    by blast
  from res r2 have "q_stage2 res = Some r2" "q_risk_score res = 0.5" by simp_all
  with res(1) r2(2) d i qr_phish_stage1 show ?thesis by blast
qed

section \<open>The VPA format validator\<close>

lemma vpa_examples:
  "re_match VPA_FORMAT_RE ''user@oksbi''"
  "map_of KNOWN_PROVIDERS (lower (after_last CHR ''@'' ''user@oksbi'')) = Some ''State Bank of India''"
  "\<not> re_match VPA_FORMAT_RE ''bad_format''"
  "re_match VPA_FORMAT_RE ''user@unknownprovider123''"
  "map_of KNOWN_PROVIDERS (lower (after_last CHR ''@'' ''user@unknownprovider123'')) = None"
  by code_simp+

text \<open>
  Claim C7. \<open>validate_vpa_format\<close> returns \<open>BLOCK\<close> with risk 0.9 for every string failing the
  \<open>localpart@provider\<close> pattern (so for every string with no \<open>@\<close>); \<open>OK\<close> with risk 0.1 and
  the resolved institution name for every string whose provider part (lower-cased, after the
  last \<open>@\<close>) is in the known-provider table; and \<open>WARN\<close> with risk 0.5 for every well-formed
  VPA with an unrecognized provider. The clauses are the three returns of the function in
  their order: the format check comes first, and the provider is looked up for the strings
  that pass it. Which strings pass the pattern is \<open>vpa_format_iff\<close>.
\<close>

theorem validate_vpa_format_cases:
  "(\<not> re_match VPA_FORMAT_RE vpa \<or> CHR ''@'' \<notin> set vpa \<longrightarrow>
      f_verdict (validate_vpa_format vpa) = ''BLOCK'' \<and> f_risk_score (validate_vpa_format vpa) = 0.9) \<and>
   (re_match VPA_FORMAT_RE vpa \<and>
    map_of KNOWN_PROVIDERS (lower (after_last CHR ''@'' vpa)) = Some name \<longrightarrow>
      f_verdict (validate_vpa_format vpa) = ''OK'' \<and> f_risk_score (validate_vpa_format vpa) = 0.1 \<and>
      f_provider (validate_vpa_format vpa) = Some name) \<and>
   (re_match VPA_FORMAT_RE vpa \<and>
    map_of KNOWN_PROVIDERS (lower (after_last CHR ''@'' vpa)) = None \<longrightarrow>
      f_verdict (validate_vpa_format vpa) = ''WARN'' \<and> f_risk_score (validate_vpa_format vpa) = 0.5)"
  using vpa_format_needs_at [of vpa] by (auto simp add: validate_vpa_format_def Let_def)

text \<open>The three examples of the spec.\<close>

theorem validate_vpa_format_witness:
  "f_verdict (validate_vpa_format ''user@oksbi'') = ''OK'' \<and>
   f_risk_score (validate_vpa_format ''user@oksbi'') = 0.1 \<and>
   f_provider (validate_vpa_format ''user@oksbi'') = Some ''State Bank of India'' \<and>
   CHR ''@'' \<notin> set ''bad_format'' \<and>
   f_verdict (validate_vpa_format ''bad_format'') = ''BLOCK'' \<and>
   f_risk_score (validate_vpa_format ''bad_format'') = 0.9 \<and>
   f_verdict (validate_vpa_format ''user@unknownprovider123'') = ''WARN'' \<and>
   f_risk_score (validate_vpa_format ''user@unknownprovider123'') = 0.5"
  using validate_vpa_format_cases [of "''user@oksbi''" "''State Bank of India''"]
        validate_vpa_format_cases [of "''bad_format''" "[]"]
        validate_vpa_format_cases [of "''user@unknownprovider123''" "[]"]
        vpa_examples
  by simp

section \<open>The fallback engine: the blacklist short-circuit\<close>

text \<open>
  Claim C8. For all values of \<open>static_score\<close>, \<open>hard_rule_hits\<close>, \<open>tls_ok\<close>, \<open>upi_in_url\<close> and
  \<open>whois_age_days\<close>, \<open>fallback_risk\<close> with \<open>in_blacklist\<close> true returns level \<open>HIGH\<close>, score
  100 and action \<open>BLOCK\<close>.
\<close>

theorem fallback_risk_blacklist_dominates:
  "fr_level (fallback_risk static_score hard_rule_hits tls_ok upi_in_url whois_age_days True) = ''HIGH'' \<and>
   fr_score (fallback_risk static_score hard_rule_hits tls_ok upi_in_url whois_age_days True) = 100 \<and>
   fr_action (fallback_risk static_score hard_rule_hits tls_ok upi_in_url whois_age_days True) = ''BLOCK''"
  by (simp add: fallback_risk_def Let_def)

text \<open>The theorem at the arguments of the module's own demonstration call, with a blacklisted
  domain; without the blacklist, a clean URL scores 0.\<close>

theorem fallback_risk_blacklist_witness:
  "fr_level (fallback_risk 0.6 1 False True (Some 3) True) = ''HIGH'' \<and>
   fr_score (fallback_risk 0.6 1 False True (Some 3) True) = 100 \<and>
   fr_action (fallback_risk 0.6 1 False True (Some 3) True) = ''BLOCK'' \<and>
   fr_score (fallback_risk 0 0 True False None False) = 0"
  using fallback_risk_blacklist_dominates [of "0.6" 1 False True "Some 3"]
  by (simp add: fallback_risk_def Let_def)

section \<open>The VPA rule engine\<close>

lemma allowed_providers_set:
  "set ALLOWED_PROVIDERS = {''oksbi'', ''okhdfcbank'', ''okaxis'', ''okicici'', ''okyesbank'', ''okkotak'',
     ''okboi'', ''okupi'', ''okidfc'', ''ybl'', ''upi''}"
  by (auto simp add: ALLOWED_PROVIDERS_def)

lemma allowed_providers_count: "length (remdups ALLOWED_PROVIDERS) = 11"
  by code_simp

text \<open>None of the three names the rule engine imports is bound by the utilities.\<close>

lemma helpers_not_defined:
  "''is_valid_format'' \<notin> set VPA_UTILS_NAMES"
  "''get_provider'' \<notin> set VPA_UTILS_NAMES"
  "''entropy'' \<notin> set VPA_UTILS_NAMES"
  by (simp_all add: VPA_UTILS_NAMES_def)

lemma load_vpa_rules_fails:
  "load_vpa_rules = Some (ImportError ''is_valid_format'' ''vpa_validation.vpa_utils'')"
  by (simp add: load_vpa_rules_def import_from_def helpers_not_defined)

text \<open>What the body of \<open>apply_vpa_rules\<close> computes, whatever the three names stand for: a hard
  failure exactly when the format helper rejects the lower-cased VPA or the provider helper's
  answer is not one of the 11 allowed providers; a soft flag exactly when the entropy helper's
  value for the lower-cased VPA exceeds 3.7, the amount is one of 1, 2, 5, 10, or the text
  before the first \<open>@\<close> has at most 3 characters.\<close>

lemma apply_vpa_rules_body_flags:
  "(hard_fail (apply_vpa_rules_body h vpa amount) \<noteq> []) =
     (\<not> is_valid_format h (lower vpa) \<or>
      (\<forall>p. get_provider h (lower vpa) = Some p \<longrightarrow>
         p \<notin> {''oksbi'', ''okhdfcbank'', ''okaxis'', ''okicici'', ''okyesbank'', ''okkotak'',
               ''okboi'', ''okupi'', ''okidfc'', ''ybl'', ''upi''})) \<and>
   (soft_flags (apply_vpa_rules_body h vpa amount) \<noteq> []) =
     (entropy h (lower vpa) > 3.7 \<or> (\<exists>a. amount = Some a \<and> a \<in> {1, 2, 5, 10}) \<or>
      length (before_first CHR ''@'' (lower vpa)) \<le> 3)"
  by (cases "get_provider h (lower vpa)"; cases amount)
     (auto simp add: apply_vpa_rules_body_def Let_def provider_allowed_def amount_suspicious_def
        allowed_providers_set SUSPICIOUS_AMOUNTS_def)

text \<open>
  Claim C9 says that, for every VPA string and optional payment amount, \<open>apply_vpa_rules\<close>
  reports a hard failure exactly when the format is invalid or the provider is not in the
  11-entry allowlist, and soft flags exactly when the local-part entropy exceeds 3.7 bits,
  the amount is in \<open>{1, 2, 5, 10}\<close>, or the local part has at most 3 characters. The code
  reports nothing: loading \<open>vpa_rules.py\<close> raises \<open>ImportError\<close> at \<open>is_valid_format\<close>, the first
  of three names that \<open>vpa_utils\<close> does not bind, so a call such as
  \<open>apply_vpa_rules("john@oksbi", 1)\<close> gets the import error, whatever the VPA and the amount
  are.
\<close>

theorem apply_vpa_rules_import_error:
  "apply_vpa_rules h vpa amount = Inl (ImportError ''is_valid_format'' ''vpa_validation.vpa_utils'') \<and>
   apply_vpa_rules h ''john@oksbi'' (Some 1) =
     Inl (ImportError ''is_valid_format'' ''vpa_validation.vpa_utils'')"
  by (simp add: apply_vpa_rules_def load_vpa_rules_fails)

section \<open>The reputation store\<close>

text \<open>
  Claim C10, as stated: looking up a VPA that is not in the store returns
  \<open>{reports: 0, trust: 0.50}\<close> and creates that entry in the store. The lookup returns the
  default, but the store has no entry afterwards: \<open>get_reputation\<close> reads with a default and
  writes nothing.
\<close>

theorem get_reputation_creates_no_entry:
  "fst (get_reputation Map.empty ''john@oksbi'') = \<lparr>reports = 0, trust = 0.5\<rparr> \<and>
   snd (get_reputation Map.empty ''john@oksbi'') (lower ''john@oksbi'') = None"
  by (simp add: get_reputation_def Let_def default_reputation_def)

text \<open>
  Claim C10, amended. \<open>get_reputation\<close> on a VPA whose lower-cased form is not in the store
  returns \<open>{reports: 0, trust: 0.50}\<close> and leaves the store as it is (a lookup never writes).
  \<open>update_reputation\<close> takes the stored entry, or the same default when there is none, and
  stores under the lower-cased VPA: for a scam report, \<open>reports + 1\<close> and \<open>trust * 0.75\<close>; for a
  clean observation, the trust raised by 0.05 and capped at 1.0, the reports unchanged.
\<close>

theorem reputation_store_behaviour:
  "(store (lower vpa) = None \<longrightarrow> fst (get_reputation store vpa) = \<lparr>reports = 0, trust = 0.5\<rparr>) \<and>
   snd (get_reputation store vpa) = store \<and>
   (let r = (case store (lower vpa) of Some r \<Rightarrow> r | None \<Rightarrow> \<lparr>reports = 0, trust = 0.5\<rparr>) in
    update_reputation store vpa True =
      store(lower vpa \<mapsto> \<lparr>reports = reports r + 1, trust = trust r * 0.75\<rparr>) \<and>
    update_reputation store vpa False =
      store(lower vpa \<mapsto> r\<lparr>trust := min 1.0 (trust r + 0.05)\<rparr>))"
  by (cases "store (lower vpa)")
     (simp_all add: get_reputation_def update_reputation_def Let_def default_reputation_def)

theorem reputation_store_witness:
  "Map.empty (lower ''John@OKSBI'') = (None :: reputation option) \<and>
   fst (get_reputation Map.empty ''John@OKSBI'') = \<lparr>reports = 0, trust = 0.5\<rparr> \<and>
   snd (get_reputation Map.empty ''John@OKSBI'') = Map.empty \<and>
   update_reputation Map.empty ''John@OKSBI'' True ''john@oksbi'' =
     Some \<lparr>reports = 1, trust = 0.375\<rparr> \<and>
   update_reputation (update_reputation Map.empty ''John@OKSBI'' True) ''john@oksbi'' False
     ''john@oksbi'' = Some \<lparr>reports = 1, trust = 0.425\<rparr>"
  using reputation_store_behaviour [of Map.empty "''John@OKSBI''"]
        reputation_store_behaviour [of "update_reputation Map.empty ''John@OKSBI'' True" "''john@oksbi''"]
  by (simp add: Let_def lower_john_mixed lower_john)

end
